theory Spec2Isabelle
  imports Complex_Main
begin

section \<open>Lot sizing through an external MILP solver\<close>

text \<open>
  The two modules \<^verbatim>\<open>tools/lot_sizing_tool.py\<close> and
  \<^verbatim>\<open>tools/capacitated_lot_sizing_tool.py\<close> build a mixed-integer linear program
  with the gurobipy modelling interface, hand it to the solver and unpack the answer.
  The embedding follows the source statement by statement:

  \<^item> Python floats are idealised as \<^typ>\<open>real\<close>; rounding errors and the range of
    floating-point arithmetic are not modelled. Of the tolerances of the solver, only the
    one on binary variables is (\<open>feasible_tol\<close> below).
  \<^item> The model object \<^verbatim>\<open>m\<close> that the source mutates is a record passed along explicitly.
  \<^item> The solver is not part of the repository. It is a parameter: a function from its own
    environment state and a model to an answer and a new environment state. What the
    source may rely on about the answer (feasibility, the objective value) is a hypothesis
    of the theorems that need it, stated on the answer actually received.
  \<^item> The calls that cross the solver boundary (\<^verbatim>\<open>gp.Model(...)\<close> and
    \<^verbatim>\<open>m.optimize()\<close>) are recorded in a trace, so that "no solver call" is a
    statement about the trace.
  \<^item> Every \<^verbatim>\<open>raise\<close> is a value \<open>Inl e\<close> of the result.
\<close>

subsection \<open>Python values and built-ins used by the source\<close>

datatype error =
    ValueError string
  | RuntimeError string
  | TypeError string
  | JSONDecodeError string

text \<open>\<^verbatim>\<open>sum(xs)\<close> starts from 0 and adds from the left.\<close>

definition py_sum :: "real list \<Rightarrow> real" where
  "py_sum xs = foldl (+) 0 xs"

text \<open>
  \<^verbatim>\<open>max(xs)\<close> raises ValueError on an empty sequence and otherwise returns the first
  largest element. The message is CPython's (up to 3.11; later versions word it
  differently).
\<close>

definition py_max :: "real list \<Rightarrow> error + real" where
  "py_max xs =
     (case xs of
        [] \<Rightarrow> Inl (ValueError ''max() arg is an empty sequence'')
      | x # rest \<Rightarrow> Inr (foldl (\<lambda>m v. if m < v then v else m) x rest))"

text \<open>
  \<^verbatim>\<open>round(x)\<close> on a float with one argument returns an int and rounds halves to the
  even neighbour; \<^verbatim>\<open>int(...)\<close> of that int is the identity.
\<close>

definition py_round :: "real \<Rightarrow> int" where
  "py_round x =
     (let f = \<lfloor>x\<rfloor>; r = x - of_int f
      in if r < 1 / 2 then f
         else if 1 / 2 < r then f + 1
         else if even f then f else f + 1)"

text \<open>Decimal rendering of integers, as an f-string does it.\<close>

definition digit :: "nat \<Rightarrow> char" where
  "digit n = ''0123456789'' ! n"

function str_nat :: "nat \<Rightarrow> string" where
  "str_nat n = (if n < 10 then [digit n] else str_nat (n div 10) @ [digit (n mod 10)])"
  by pat_completeness auto
termination
  by (relation "measure id") auto

declare str_nat.simps [simp del]

definition str_int :: "int \<Rightarrow> string" where
  "str_int i = (if i < 0 then ''-'' @ str_nat (nat (- i)) else str_nat (nat i))"

subsection \<open>The gurobipy objects the source builds\<close>

text \<open>
  \<^verbatim>\<open>m.addVars(T, name="prod")\<close> returns a tupledict with the keys \<open>0, \<dots>, T - 1\<close>; its
  variables are identified by the name and the key. A tupledict is the list of its
  variables in key order; the source only reads it at keys below \<open>T\<close>.
\<close>

datatype var = Var string nat

datatype vtype = CONTINUOUS | BINARY

record var_decl =
  dvar :: var
  lb :: real
  vtype :: vtype

text \<open>
  The linear expressions that Python's overloaded operators build, kept as the syntax
  tree the source writes.
\<close>

datatype linexpr =
    Const real
  | V var
  | Add linexpr linexpr
  | Sub linexpr linexpr
  | Mul real linexpr

fun eval :: "(var \<Rightarrow> real) \<Rightarrow> linexpr \<Rightarrow> real" where
  "eval x (Const c) = c"
| "eval x (V v) = x v"
| "eval x (Add a b) = eval x a + eval x b"
| "eval x (Sub a b) = eval x a - eval x b"
| "eval x (Mul c a) = c * eval x a"

text \<open>
  Modelled from the spec: \<^verbatim>\<open>gp.quicksum\<close> is a function of gurobipy, which is not part of
  the repository. The source passes it the tupledicts themselves; following the objective
  that the specification states for both formulations (the sum over the periods of
  \<open>setup_cost * setup[t] + unit_cost * production[t] + holding_cost * inventory[t]\<close>), it is
  taken to add up the variables of the tupledict, starting from the empty expression.
\<close>

definition quicksum :: "var list \<Rightarrow> linexpr" where
  "quicksum vs = foldl (\<lambda>e v. Add e (V v)) (Const 0) vs"

datatype sense = EQUAL | LESS_EQUAL

record constr =
  lhs :: linexpr
  sense :: sense
  rhs :: linexpr
  cname :: string

record gmodel =
  ModelName :: string
  OutputFlag :: int
  vars :: "var_decl list"
  constrs :: "constr list"
  objective :: linexpr
  ModelSense :: int

text \<open>The values of gurobipy's constants \<^verbatim>\<open>GRB.MINIMIZE\<close> and \<^verbatim>\<open>GRB.OPTIMAL\<close>.\<close>

definition GRB_MINIMIZE :: int where
  "GRB_MINIMIZE = 1"

definition GRB_OPTIMAL :: int where
  "GRB_OPTIMAL = 2"

definition gp_Model :: "string \<Rightarrow> gmodel" where
  "gp_Model name =
     \<lparr>ModelName = name, OutputFlag = 1, vars = [], constrs = [],
      objective = Const 0, ModelSense = GRB_MINIMIZE\<rparr>"

definition addVars :: "nat \<Rightarrow> real \<Rightarrow> vtype \<Rightarrow> string \<Rightarrow> gmodel \<Rightarrow> var list \<times> gmodel" where
  "addVars T l ty name m =
     (map (Var name) [0..<T],
      m\<lparr>vars := vars m @ map (\<lambda>i. \<lparr>dvar = Var name i, lb = l, vtype = ty\<rparr>) [0..<T]\<rparr>)"

definition addConstr :: "linexpr \<Rightarrow> sense \<Rightarrow> linexpr \<Rightarrow> string \<Rightarrow> gmodel \<Rightarrow> gmodel" where
  "addConstr l s r name m =
     m\<lparr>constrs := constrs m @ [\<lparr>lhs = l, sense = s, rhs = r, cname = name\<rparr>]\<rparr>"

definition setObjective :: "linexpr \<Rightarrow> int \<Rightarrow> gmodel \<Rightarrow> gmodel" where
  "setObjective e s m = m\<lparr>objective := e, ModelSense := s\<rparr>"

subsection \<open>The solver boundary\<close>

text \<open>
  After \<^verbatim>\<open>m.optimize()\<close> the source reads \<^verbatim>\<open>m.Status\<close>, the attribute \<^verbatim>\<open>X\<close> of
  variables and \<^verbatim>\<open>m.ObjVal\<close>.
\<close>

record outcome =
  Status :: int
  X :: "var \<Rightarrow> real"
  ObjVal :: real

type_synonym 'e solver = "'e \<Rightarrow> gmodel \<Rightarrow> outcome \<times> 'e"

datatype event = NewModel string | Optimize gmodel

record 'e world =
  trace :: "event list"
  env :: 'e

definition new_model :: "string \<Rightarrow> 'e world \<Rightarrow> gmodel \<times> 'e world" where
  "new_model name w = (gp_Model name, w\<lparr>trace := trace w @ [NewModel name]\<rparr>)"

definition optimize :: "'e solver \<Rightarrow> gmodel \<Rightarrow> 'e world \<Rightarrow> outcome \<times> 'e world" where
  "optimize solver m w =
     (case solver (env w) m of
        (out, e') \<Rightarrow> (out, w\<lparr>trace := trace w @ [Optimize m], env := e'\<rparr>))"

text \<open>
  What an answer with status \<^verbatim>\<open>OPTIMAL\<close> promises, with exact arithmetic: the values
  satisfy every constraint, every lower bound, and binary variables are 0 or 1.
\<close>

definition satisfies :: "(var \<Rightarrow> real) \<Rightarrow> constr \<Rightarrow> bool" where
  "satisfies x c =
     (case sense c of
        EQUAL \<Rightarrow> eval x (lhs c) = eval x (rhs c)
      | LESS_EQUAL \<Rightarrow> eval x (lhs c) \<le> eval x (rhs c))"

definition in_domain :: "(var \<Rightarrow> real) \<Rightarrow> var_decl \<Rightarrow> bool" where
  "in_domain x d =
     (lb d \<le> x (dvar d) \<and> (vtype d = BINARY \<longrightarrow> x (dvar d) = 0 \<or> x (dvar d) = 1))"

definition feasible :: "gmodel \<Rightarrow> (var \<Rightarrow> real) \<Rightarrow> bool" where
  "feasible m x = (list_all (satisfies x) (constrs m) \<and> list_all (in_domain x) (vars m))"

subsection \<open>\<^verbatim>\<open>lot_sizing_tool.py\<close>\<close>

type_synonym core_result = "real list \<times> real list \<times> int list \<times> real"

text \<open>
  \<^verbatim>\<open>_solve_core\<close> is \<open>solve_core\<close> here and \<^verbatim>\<open>_solve_cap_core\<close> is \<open>solve_cap_core\<close>: an
  Isabelle name cannot start with an underscore.

  The body of the loop over the periods, lines 57 to 59.
\<close>

definition period_constrs ::
  "real list \<Rightarrow> real \<Rightarrow> real \<Rightarrow> var list \<Rightarrow> var list \<Rightarrow> var list \<Rightarrow> gmodel \<Rightarrow> nat \<Rightarrow> gmodel" where
  "period_constrs demand initial_inventory bigM prod_v inv_v y m t =
     (let prev_inv = (if t = 0 then Const initial_inventory else V (inv_v ! (t - 1)));
          m = addConstr (Sub (Add prev_inv (V (prod_v ! t))) (Const (demand ! t))) EQUAL
                (V (inv_v ! t)) (''bal_'' @ str_nat t) m;
          m = addConstr (V (prod_v ! t)) LESS_EQUAL (Mul bigM (V (y ! t)))
                (''link_'' @ str_nat t) m
      in m)"

text \<open>
  Lines 46 to 66 of \<^verbatim>\<open>_solve_core\<close>: the model handed to \<^verbatim>\<open>m.optimize()\<close>, with the
  three tupledicts (\<open>prod_v\<close> and \<open>inv_v\<close> stand for the source's
  \<^verbatim>\<open>prod\<close> and \<^verbatim>\<open>inv\<close>, names that HOL already uses).
\<close>

definition build_lot_sizing ::
  "real list \<Rightarrow> real \<Rightarrow> real \<Rightarrow> real \<Rightarrow> real \<Rightarrow> gmodel \<Rightarrow> var list \<times> var list \<times> var list \<times> gmodel" where
  "build_lot_sizing demand setup_cost unit_cost holding_cost initial_inventory m0 =
     (let T = length demand;
          m = m0\<lparr>OutputFlag := 0\<rparr>;
          (prod_v, m) = addVars T 0 CONTINUOUS ''prod'' m;
          (inv_v, m) = addVars T 0 CONTINUOUS ''inv'' m;
          (y, m) = addVars T 0 BINARY ''setup'' m;
          bigM = py_sum demand + initial_inventory;
          m = foldl (period_constrs demand initial_inventory bigM prod_v inv_v y) m [0..<T];
          cost = Add (Add (Mul setup_cost (quicksum y)) (Mul unit_cost (quicksum prod_v)))
                   (Mul holding_cost (quicksum inv_v));
          m = setObjective cost GRB_MINIMIZE m
      in (prod_v, inv_v, y, m))"

text \<open>Lines 67 to 77, shared verbatim by both modules: solve, check the status, unpack.\<close>

definition solve_and_unpack ::
  "'e solver \<Rightarrow> nat \<Rightarrow> var list \<Rightarrow> var list \<Rightarrow> var list \<Rightarrow> gmodel \<Rightarrow> 'e world
     \<Rightarrow> (error + core_result) \<times> 'e world" where
  "solve_and_unpack solver T prod_v inv_v y m w =
     (case optimize solver m w of
        (out, w') \<Rightarrow>
          if Status out \<noteq> GRB_OPTIMAL
          then (Inl (RuntimeError (''Gurobi status '' @ str_int (Status out)
                                     @ '': optimisation failed'')), w')
          else (Inr (map (\<lambda>t. X out (prod_v ! t)) [0..<T],
                     map (\<lambda>t. X out (inv_v ! t)) [0..<T],
                     map (\<lambda>t. py_round (X out (y ! t))) [0..<T],
                     ObjVal out), w'))"

definition solve_core ::
  "'e solver \<Rightarrow> real list \<Rightarrow> real \<Rightarrow> real \<Rightarrow> real \<Rightarrow> real \<Rightarrow> 'e world
     \<Rightarrow> (error + core_result) \<times> 'e world" where
  "solve_core solver demand setup_cost unit_cost holding_cost initial_inventory w =
     (case new_model ''lot_sizing'' w of
        (m0, w1) \<Rightarrow>
          (case build_lot_sizing demand setup_cost unit_cost holding_cost initial_inventory m0 of
             (prod_v, inv_v, y, m) \<Rightarrow> solve_and_unpack solver (length demand) prod_v inv_v y m w1))"

text \<open>
  The two tools. A Python dict keeps its insertion order, which \<^verbatim>\<open>json.dump\<close> follows,
  so the returned dict is an association list. The default \<^verbatim>\<open>initial_inventory = 0.0\<close>
  is applied where a call leaves the argument out (see \<open>call_lot_sizing\<close> below); the
  \<^verbatim>\<open>@tool\<close> decorator of smolagents forwards a call to the function unchanged. The
  tools are modelled here at their annotated types, and on untyped values further below.
\<close>

datatype pyval =
    PNone
  | PBool bool
  | PInt int
  | PFloat real
  | PStr string
  | PList "pyval list"
  | PDict "(string \<times> pyval) list"

definition solve_lot_sizing ::
  "'e solver \<Rightarrow> real list \<Rightarrow> real \<Rightarrow> real \<Rightarrow> real \<Rightarrow> real \<Rightarrow> 'e world
     \<Rightarrow> (error + (string \<times> pyval) list) \<times> 'e world" where
  "solve_lot_sizing solver demand setup_cost unit_cost holding_cost initial_inventory w =
     (case solve_core solver demand setup_cost unit_cost holding_cost initial_inventory w of
        (Inl e, w') \<Rightarrow> (Inl e, w')
      | (Inr (plan, inv_v, setups, cost), w') \<Rightarrow>
          (Inr [(''production_plan'', PList (map PFloat plan)),
                (''inventory'', PList (map PFloat inv_v)),
                (''setup'', PList (map PInt setups)),
                (''total_cost'', PFloat cost)], w'))"

definition solve_lot_sizing_basic ::
  "'e solver \<Rightarrow> real list \<Rightarrow> real \<Rightarrow> real \<Rightarrow> real \<Rightarrow> real \<Rightarrow> 'e world
     \<Rightarrow> (error + real list \<times> real) \<times> 'e world" where
  "solve_lot_sizing_basic solver demand setup_cost unit_cost holding_cost initial_inventory w =
     (case solve_core solver demand setup_cost unit_cost holding_cost initial_inventory w of
        (Inl e, w') \<Rightarrow> (Inl e, w')
      | (Inr (plan, inv_v, setups, cost), w') \<Rightarrow> (Inr (plan, cost), w'))"

subsection \<open>\<^verbatim>\<open>capacitated_lot_sizing_tool.py\<close>\<close>

text \<open>The body of the loop over the periods, lines 56 to 59.\<close>

definition cap_period_constrs ::
  "real list \<Rightarrow> real list \<Rightarrow> real \<Rightarrow> real \<Rightarrow> var list \<Rightarrow> var list \<Rightarrow> var list
     \<Rightarrow> gmodel \<Rightarrow> nat \<Rightarrow> gmodel" where
  "cap_period_constrs demand capacity initial_inventory bigM prod_v inv_v y m t =
     (let prev_inv = (if t = 0 then Const initial_inventory else V (inv_v ! (t - 1)));
          m = addConstr (Sub (Add prev_inv (V (prod_v ! t))) (Const (demand ! t))) EQUAL
                (V (inv_v ! t)) (''bal_'' @ str_nat t) m;
          m = addConstr (V (prod_v ! t)) LESS_EQUAL (Const (capacity ! t))
                (''cap_'' @ str_nat t) m;
          m = addConstr (V (prod_v ! t)) LESS_EQUAL (Mul bigM (V (y ! t)))
                (''link_'' @ str_nat t) m
      in m)"

text \<open>
  Lines 45 to 66 of \<^verbatim>\<open>_solve_cap_core\<close>. \<^verbatim>\<open>max(capacity)\<close> on line 53 can raise, after
  the model object and its variables exist.
\<close>

definition build_cap_lot_sizing ::
  "real list \<Rightarrow> real list \<Rightarrow> real \<Rightarrow> real \<Rightarrow> real \<Rightarrow> real \<Rightarrow> gmodel
     \<Rightarrow> error + var list \<times> var list \<times> var list \<times> gmodel" where
  "build_cap_lot_sizing demand capacity setup_cost unit_cost holding_cost initial_inventory m0 =
     (let T = length demand;
          m = m0\<lparr>OutputFlag := 0\<rparr>;
          (prod_v, m) = addVars T 0 CONTINUOUS ''prod'' m;
          (inv_v, m) = addVars T 0 CONTINUOUS ''inv'' m;
          (y, m) = addVars T 0 BINARY ''setup'' m
      in case py_max capacity of
           Inl e \<Rightarrow> Inl e
         | Inr bigM \<Rightarrow>
             (let m = foldl (cap_period_constrs demand capacity initial_inventory bigM
                               prod_v inv_v y) m [0..<T];
                  cost = Add (Add (Mul setup_cost (quicksum y)) (Mul unit_cost (quicksum prod_v)))
                           (Mul holding_cost (quicksum inv_v));
                  m = setObjective cost GRB_MINIMIZE m
              in Inr (prod_v, inv_v, y, m)))"

definition length_mismatch :: error where
  "length_mismatch =
     ValueError (CHR 0x27 # ''demand' and 'capacity' must have the same length'')"

definition solve_cap_core ::
  "'e solver \<Rightarrow> real list \<Rightarrow> real list \<Rightarrow> real \<Rightarrow> real \<Rightarrow> real \<Rightarrow> real \<Rightarrow> 'e world
     \<Rightarrow> (error + core_result) \<times> 'e world" where
  "solve_cap_core solver demand capacity setup_cost unit_cost holding_cost initial_inventory w =
     (if length demand \<noteq> length capacity then (Inl length_mismatch, w)
      else
        (case new_model ''cap_lot_sizing'' w of
           (m0, w1) \<Rightarrow>
             (case build_cap_lot_sizing demand capacity setup_cost unit_cost holding_cost
                     initial_inventory m0 of
                Inl e \<Rightarrow> (Inl e, w1)
              | Inr (prod_v, inv_v, y, m) \<Rightarrow>
                  solve_and_unpack solver (length demand) prod_v inv_v y m w1)))"

definition solve_cap_lot_sizing ::
  "'e solver \<Rightarrow> real list \<Rightarrow> real list \<Rightarrow> real \<Rightarrow> real \<Rightarrow> real \<Rightarrow> real \<Rightarrow> 'e world
     \<Rightarrow> (error + (string \<times> pyval) list) \<times> 'e world" where
  "solve_cap_lot_sizing solver demand capacity setup_cost unit_cost holding_cost
       initial_inventory w =
     (case solve_cap_core solver demand capacity setup_cost unit_cost holding_cost
             initial_inventory w of
        (Inl e, w') \<Rightarrow> (Inl e, w')
      | (Inr (plan, inv_v, setups, cost), w') \<Rightarrow>
          (Inr [(''production_plan'', PList (map PFloat plan)),
                (''inventory'', PList (map PFloat inv_v)),
                (''setup'', PList (map PInt setups)),
                (''total_cost'', PFloat cost)], w'))"

definition solve_cap_lot_sizing_basic ::
  "'e solver \<Rightarrow> real list \<Rightarrow> real list \<Rightarrow> real \<Rightarrow> real \<Rightarrow> real \<Rightarrow> real \<Rightarrow> 'e world
     \<Rightarrow> (error + real list \<times> real) \<times> 'e world" where
  "solve_cap_lot_sizing_basic solver demand capacity setup_cost unit_cost holding_cost
       initial_inventory w =
     (case solve_cap_core solver demand capacity setup_cost unit_cost holding_cost
             initial_inventory w of
        (Inl e, w') \<Rightarrow> (Inl e, w')
      | (Inr (plan, inv_v, setups, cost), w') \<Rightarrow> (Inr (plan, cost), w'))"

subsection \<open>The command-line entry of both modules\<close>

text \<open>
  \<^verbatim>\<open>json.load\<close> and \<^verbatim>\<open>json.dump\<close> belong to Python's standard library and are
  parameters: \<open>json_load\<close> maps the text on standard input to a Python value or to the
  error it raises, \<open>json_dump v n\<close> is the text that \<^verbatim>\<open>json.dump(v, sys.stdout, indent=n)\<close>
  writes. The entry returns the text written to standard output when the process ends
  normally, and the uncaught error otherwise; nothing has been written by then, since
  the only writes follow the call of the tool.

  The value that \<^verbatim>\<open>json.load\<close> returns is untyped and the source checks nothing about
  it, so the call is followed through Python's dynamic typing as far as the source and the
  language decide what happens:

  \<^item> \<^verbatim>\<open>len(demand)\<close> raises TypeError on \<^verbatim>\<open>None\<close>, a bool or a number, before the model
    object is made; a list, a str and a dict have a length, and iterating over them yields
    the elements, the characters and the keys;
  \<^item> \<^verbatim>\<open>sum(demand) + initial_inventory\<close> on line 54 raises TypeError when an element or the
    initial inventory is not a number (a bool is one), after the model object is made; so
    does every str or dict but the empty one, which behaves as the empty series;
  \<^item> in the capacitated module the lengths are compared first, and \<^verbatim>\<open>max\<close> of an empty
    capacity raises after the model object is made;
  \<^item> where the series hold JSON numbers and the scalars are JSON numbers, as the annotations
    say, the call is the tool at its annotated types.

  Any other value reaches gurobipy's arithmetic (a bool, or a cost that is no number) or the
  comparisons inside \<^verbatim>\<open>max\<close>; what happens then is not decided by this repository, and the
  call is \<open>Unmodelled\<close>. The string inside a \<open>TypeError\<close> names the expression that raises; it
  is not the text of Python's message.
\<close>

datatype 'a modelled = Unmodelled | Result 'a

fun py_iter :: "pyval \<Rightarrow> pyval list option" where
  "py_iter (PList vs) = Some vs"
| "py_iter (PStr s) = Some (map (\<lambda>c. PStr [c]) s)"
| "py_iter (PDict kv) = Some (map (\<lambda>e. PStr (fst e)) kv)"
| "py_iter v = None"

fun is_number :: "pyval \<Rightarrow> bool" where
  "is_number (PBool b) = True"
| "is_number (PInt i) = True"
| "is_number (PFloat r) = True"
| "is_number v = False"

fun as_float :: "pyval \<Rightarrow> real option" where
  "as_float (PInt i) = Some (of_int i)"
| "as_float (PFloat r) = Some r"
| "as_float v = None"

fun as_floats :: "pyval list \<Rightarrow> real list option" where
  "as_floats [] = Some []"
| "as_floats (v # vs) =
     (case as_float v of
        None \<Rightarrow> None
      | Some r \<Rightarrow> (case as_floats vs of None \<Rightarrow> None | Some rs \<Rightarrow> Some (r # rs)))"

text \<open>\<^verbatim>\<open>solve_lot_sizing\<close> with its body, \<^verbatim>\<open>_solve_core\<close>, on untyped values.\<close>

definition solve_lot_sizing_untyped ::
  "'e solver \<Rightarrow> pyval \<Rightarrow> pyval \<Rightarrow> pyval \<Rightarrow> pyval \<Rightarrow> pyval \<Rightarrow> 'e world
     \<Rightarrow> ((error + (string \<times> pyval) list) \<times> 'e world) modelled" where
  "solve_lot_sizing_untyped solver demand setup_cost unit_cost holding_cost initial_inventory w =
     (case py_iter demand of
        None \<Rightarrow> Result (Inl (TypeError ''len(demand)''), w)
      | Some ds \<Rightarrow>
          if \<not> (list_all is_number ds \<and> is_number initial_inventory)
          then Result (Inl (TypeError ''sum(demand) + initial_inventory''),
                       snd (new_model ''lot_sizing'' w))
          else
            (case as_floats ds of
               None \<Rightarrow> Unmodelled
             | Some d \<Rightarrow>
            (case as_float setup_cost of
               None \<Rightarrow> Unmodelled
             | Some sc \<Rightarrow>
            (case as_float unit_cost of
               None \<Rightarrow> Unmodelled
             | Some uc \<Rightarrow>
            (case as_float holding_cost of
               None \<Rightarrow> Unmodelled
             | Some hc \<Rightarrow>
            (case as_float initial_inventory of
               None \<Rightarrow> Unmodelled
             | Some i0 \<Rightarrow> Result (solve_lot_sizing solver d sc uc hc i0 w)))))))"

text \<open>\<^verbatim>\<open>solve_cap_lot_sizing\<close> with its body, \<^verbatim>\<open>_solve_cap_core\<close>, on untyped values.\<close>

definition solve_cap_lot_sizing_untyped ::
  "'e solver \<Rightarrow> pyval \<Rightarrow> pyval \<Rightarrow> pyval \<Rightarrow> pyval \<Rightarrow> pyval \<Rightarrow> pyval \<Rightarrow> 'e world
     \<Rightarrow> ((error + (string \<times> pyval) list) \<times> 'e world) modelled" where
  "solve_cap_lot_sizing_untyped solver demand capacity setup_cost unit_cost holding_cost
       initial_inventory w =
     (case py_iter demand of
        None \<Rightarrow> Result (Inl (TypeError ''len(demand)''), w)
      | Some ds \<Rightarrow>
     (case py_iter capacity of
        None \<Rightarrow> Result (Inl (TypeError ''len(capacity)''), w)
      | Some cs \<Rightarrow>
          if length ds \<noteq> length cs then Result (Inl length_mismatch, w)
          else if cs = []
          then Result (Inl (ValueError ''max() arg is an empty sequence''),
                       snd (new_model ''cap_lot_sizing'' w))
          else
            (case as_floats ds of
               None \<Rightarrow> Unmodelled
             | Some d \<Rightarrow>
            (case as_floats cs of
               None \<Rightarrow> Unmodelled
             | Some c \<Rightarrow>
            (case as_float setup_cost of
               None \<Rightarrow> Unmodelled
             | Some sc \<Rightarrow>
            (case as_float unit_cost of
               None \<Rightarrow> Unmodelled
             | Some uc \<Rightarrow>
            (case as_float holding_cost of
               None \<Rightarrow> Unmodelled
             | Some hc \<Rightarrow>
            (case as_float initial_inventory of
               None \<Rightarrow> Unmodelled
             | Some i0 \<Rightarrow> Result (solve_cap_lot_sizing solver d c sc uc hc i0 w)))))))))"

text \<open>
  \<^verbatim>\<open>solve_lot_sizing(**data)\<close>, line 153. \<^verbatim>\<open>**\<close> needs a dict, whose keys are distinct. The
  entries are bound to the parameters by name: a key that is no parameter and a missing
  parameter without a default raise TypeError before the body runs, and
  \<open>initial_inventory\<close> defaults to \<^verbatim>\<open>0.0\<close>. The tool object of smolagents keeps the
  keywords \<open>self\<close> and \<open>sanitize_inputs_outputs\<close> for itself; a call with one of them is not
  modelled.
\<close>

definition wrapper_keywords :: "string list" where
  "wrapper_keywords = [''self'', ''sanitize_inputs_outputs'']"

definition call_lot_sizing ::
  "'e solver \<Rightarrow> pyval \<Rightarrow> 'e world \<Rightarrow> ((error + (string \<times> pyval) list) \<times> 'e world) modelled" where
  "call_lot_sizing solver data w =
     (case data of
        PDict kv \<Rightarrow>
          if \<not> distinct (map fst kv) \<or> list_ex (\<lambda>k. k \<in> set wrapper_keywords) (map fst kv)
          then Unmodelled
          else if list_ex (\<lambda>k. k \<notin> set [''demand'', ''setup_cost'', ''unit_cost'',
                                          ''holding_cost'', ''initial_inventory'']) (map fst kv)
          then Result (Inl (TypeError ''unexpected keyword argument''), w)
          else
            (case map_of kv ''demand'' of
               None \<Rightarrow> Result (Inl (TypeError ''missing required argument''), w)
             | Some demand \<Rightarrow>
            (case map_of kv ''setup_cost'' of
               None \<Rightarrow> Result (Inl (TypeError ''missing required argument''), w)
             | Some setup_cost \<Rightarrow>
            (case map_of kv ''unit_cost'' of
               None \<Rightarrow> Result (Inl (TypeError ''missing required argument''), w)
             | Some unit_cost \<Rightarrow>
            (case map_of kv ''holding_cost'' of
               None \<Rightarrow> Result (Inl (TypeError ''missing required argument''), w)
             | Some holding_cost \<Rightarrow>
                 solve_lot_sizing_untyped solver demand setup_cost unit_cost holding_cost
                   (case map_of kv ''initial_inventory'' of
                      None \<Rightarrow> PFloat 0
                    | Some initial_inventory \<Rightarrow> initial_inventory) w))))
      | v \<Rightarrow> Result (Inl (TypeError ''argument after ** must be a mapping''), w))"

text \<open>\<^verbatim>\<open>solve_cap_lot_sizing(**params)\<close>, line 154 of the capacitated module.\<close>

definition call_cap_lot_sizing ::
  "'e solver \<Rightarrow> pyval \<Rightarrow> 'e world \<Rightarrow> ((error + (string \<times> pyval) list) \<times> 'e world) modelled" where
  "call_cap_lot_sizing solver params w =
     (case params of
        PDict kv \<Rightarrow>
          if \<not> distinct (map fst kv) \<or> list_ex (\<lambda>k. k \<in> set wrapper_keywords) (map fst kv)
          then Unmodelled
          else if list_ex (\<lambda>k. k \<notin> set [''demand'', ''capacity'', ''setup_cost'', ''unit_cost'',
                                          ''holding_cost'', ''initial_inventory'']) (map fst kv)
          then Result (Inl (TypeError ''unexpected keyword argument''), w)
          else
            (case map_of kv ''demand'' of
               None \<Rightarrow> Result (Inl (TypeError ''missing required argument''), w)
             | Some demand \<Rightarrow>
            (case map_of kv ''capacity'' of
               None \<Rightarrow> Result (Inl (TypeError ''missing required argument''), w)
             | Some capacity \<Rightarrow>
            (case map_of kv ''setup_cost'' of
               None \<Rightarrow> Result (Inl (TypeError ''missing required argument''), w)
             | Some setup_cost \<Rightarrow>
            (case map_of kv ''unit_cost'' of
               None \<Rightarrow> Result (Inl (TypeError ''missing required argument''), w)
             | Some unit_cost \<Rightarrow>
            (case map_of kv ''holding_cost'' of
               None \<Rightarrow> Result (Inl (TypeError ''missing required argument''), w)
             | Some holding_cost \<Rightarrow>
                 solve_cap_lot_sizing_untyped solver demand capacity setup_cost unit_cost
                   holding_cost
                   (case map_of kv ''initial_inventory'' of
                      None \<Rightarrow> PFloat 0
                    | Some initial_inventory \<Rightarrow> initial_inventory) w)))))
      | v \<Rightarrow> Result (Inl (TypeError ''argument after ** must be a mapping''), w))"

text \<open>Lines 151 to 155 of \<^verbatim>\<open>lot_sizing_tool.py\<close>.\<close>

definition main_lot_sizing ::
  "(string \<Rightarrow> error + pyval) \<Rightarrow> (pyval \<Rightarrow> nat \<Rightarrow> string) \<Rightarrow> 'e solver \<Rightarrow> string \<Rightarrow> 'e world
     \<Rightarrow> ((error + string) \<times> 'e world) modelled" where
  "main_lot_sizing json_load json_dump solver stdin w =
     (case json_load stdin of
        Inl e \<Rightarrow> Result (Inl e, w)
      | Inr data \<Rightarrow>
          (case call_lot_sizing solver data w of
             Unmodelled \<Rightarrow> Unmodelled
           | Result (Inl e, w') \<Rightarrow> Result (Inl e, w')
           | Result (Inr result, w') \<Rightarrow>
               Result (Inr (json_dump (PDict result) 2 @ [CHR 0x0A]), w')))"

text \<open>Lines 152 to 156 of \<^verbatim>\<open>capacitated_lot_sizing_tool.py\<close>.\<close>

definition main_cap_lot_sizing ::
  "(string \<Rightarrow> error + pyval) \<Rightarrow> (pyval \<Rightarrow> nat \<Rightarrow> string) \<Rightarrow> 'e solver \<Rightarrow> string \<Rightarrow> 'e world
     \<Rightarrow> ((error + string) \<times> 'e world) modelled" where
  "main_cap_lot_sizing json_load json_dump solver stdin w =
     (case json_load stdin of
        Inl e \<Rightarrow> Result (Inl e, w)
      | Inr params \<Rightarrow>
          (case call_cap_lot_sizing solver params w of
             Unmodelled \<Rightarrow> Unmodelled
           | Result (Inl e, w') \<Rightarrow> Result (Inl e, w')
           | Result (Inr result, w') \<Rightarrow>
               Result (Inr (json_dump (PDict result) 2 @ [CHR 0x0A]), w')))"

text \<open>
  For the statements about the entry: the number that a JSON number stands for, an int
  being read as the float of the same value.
\<close>

fun json_number :: "pyval \<Rightarrow> real \<Rightarrow> bool" where
  "json_number (PInt i) r = (r = of_int i)"
| "json_number (PFloat x) r = (r = x)"
| "json_number v r = False"

subsection \<open>The formulation in the specification's words\<close>

text \<open>
  The constraints of one period as the specification lists them: balance, linking with a
  big-M, and the capacity bound of the capacitated variant. They are compared below with
  the constraints that the source adds in its loop.
\<close>

definition bal_constr :: "real list \<Rightarrow> real \<Rightarrow> nat \<Rightarrow> constr" where
  "bal_constr demand initial_inventory t =
     \<lparr>lhs = Sub (Add (if t = 0 then Const initial_inventory else V (Var ''inv'' (t - 1)))
                  (V (Var ''prod'' t))) (Const (demand ! t)),
      sense = EQUAL, rhs = V (Var ''inv'' t), cname = ''bal_'' @ str_nat t\<rparr>"

definition link_constr :: "real \<Rightarrow> nat \<Rightarrow> constr" where
  "link_constr bigM t =
     \<lparr>lhs = V (Var ''prod'' t), sense = LESS_EQUAL, rhs = Mul bigM (V (Var ''setup'' t)),
      cname = ''link_'' @ str_nat t\<rparr>"

definition cap_constr :: "real list \<Rightarrow> nat \<Rightarrow> constr" where
  "cap_constr capacity t =
     \<lparr>lhs = V (Var ''prod'' t), sense = LESS_EQUAL, rhs = Const (capacity ! t),
      cname = ''cap_'' @ str_nat t\<rparr>"

text \<open>
  The model that reaches \<^verbatim>\<open>m.optimize()\<close>, the answer of the solver to it, the state of the
  world after a call that went through both solver-boundary calls, and the tuple that lines 72
  to 77 return, written over the variables' names.
\<close>

definition lot_sizing_model :: "real list \<Rightarrow> real \<Rightarrow> real \<Rightarrow> real \<Rightarrow> real \<Rightarrow> gmodel" where
  "lot_sizing_model demand setup_cost unit_cost holding_cost initial_inventory =
     (case build_lot_sizing demand setup_cost unit_cost holding_cost initial_inventory
             (gp_Model ''lot_sizing'') of
        (prod_v, inv_v, y, m) \<Rightarrow> m)"

definition cap_lot_sizing_model ::
  "real list \<Rightarrow> real list \<Rightarrow> real \<Rightarrow> real \<Rightarrow> real \<Rightarrow> real \<Rightarrow> gmodel option" where
  "cap_lot_sizing_model demand capacity setup_cost unit_cost holding_cost initial_inventory =
     (case build_cap_lot_sizing demand capacity setup_cost unit_cost holding_cost
             initial_inventory (gp_Model ''cap_lot_sizing'') of
        Inl e \<Rightarrow> None
      | Inr (prod_v, inv_v, y, m) \<Rightarrow> Some m)"

definition answer :: "'e solver \<Rightarrow> 'e world \<Rightarrow> gmodel \<Rightarrow> outcome" where
  "answer solver w m = fst (solver (env w) m)"

definition after_solve :: "'e solver \<Rightarrow> 'e world \<Rightarrow> gmodel \<Rightarrow> 'e world" where
  "after_solve solver w m =
     w\<lparr>trace := trace w @ [NewModel (ModelName m), Optimize m], env := snd (solver (env w) m)\<rparr>"

definition unpack :: "nat \<Rightarrow> outcome \<Rightarrow> core_result" where
  "unpack T out =
     (map (\<lambda>t. X out (Var ''prod'' t)) [0..<T],
      map (\<lambda>t. X out (Var ''inv'' t)) [0..<T],
      map (\<lambda>t. py_round (X out (Var ''setup'' t))) [0..<T],
      ObjVal out)"

definition status_error :: "int \<Rightarrow> error" where
  "status_error s = RuntimeError (''Gurobi status '' @ str_int s @ '': optimisation failed'')"

definition objective_expr :: "nat \<Rightarrow> real \<Rightarrow> real \<Rightarrow> real \<Rightarrow> linexpr" where
  "objective_expr T setup_cost unit_cost holding_cost =
     Add (Add (Mul setup_cost (quicksum (map (Var ''setup'') [0..<T])))
              (Mul unit_cost (quicksum (map (Var ''prod'') [0..<T]))))
         (Mul holding_cost (quicksum (map (Var ''inv'') [0..<T])))"

definition var_decls :: "nat \<Rightarrow> var_decl list" where
  "var_decls T =
     map (\<lambda>i. \<lparr>dvar = Var ''prod'' i, lb = 0, vtype = CONTINUOUS\<rparr>) [0..<T]
     @ map (\<lambda>i. \<lparr>dvar = Var ''inv'' i, lb = 0, vtype = CONTINUOUS\<rparr>) [0..<T]
     @ map (\<lambda>i. \<lparr>dvar = Var ''setup'' i, lb = 0, vtype = BINARY\<rparr>) [0..<T]"


subsection \<open>Two concrete runs\<close>

text \<open>
  The instance of the module docstrings: demand 100, 150, 80, 130, setup cost 1000, unit
  cost 50, holding cost 2, no initial inventory; for the capacitated module a capacity of
  300 per period. The solvers below answer with the optimal plans of these two instances.
\<close>

definition series :: "real list \<Rightarrow> nat \<Rightarrow> real" where
  "series xs t = (if t < length xs then xs ! t else 0)"

definition demo_X :: "var \<Rightarrow> real" where
  "demo_X v =
     (case v of Var n t \<Rightarrow>
        if n = ''prod'' then series [460, 0, 0, 0] t
        else if n = ''inv'' then series [360, 210, 130, 0] t
        else if n = ''setup'' then series [1, 0, 0, 0] t
        else 0)"

definition demo_solver :: "unit solver" where
  "demo_solver e m = (\<lparr>Status = 2, X = demo_X, ObjVal = 25400\<rparr>, e)"

definition cap_demo_X :: "var \<Rightarrow> real" where
  "cap_demo_X v =
     (case v of Var n t \<Rightarrow>
        if n = ''prod'' then series [250, 0, 210, 0] t
        else if n = ''inv'' then series [150, 0, 130, 0] t
        else if n = ''setup'' then series [1, 0, 1, 0] t
        else 0)"

definition cap_demo_solver :: "unit solver" where
  "cap_demo_solver e m = (\<lparr>Status = 2, X = cap_demo_X, ObjVal = 25560\<rparr>, e)"

definition w0 :: "unit world" where
  "w0 = \<lparr>trace = [], env = ()\<rparr>"

text \<open>The dict that both structured tools return, for a given core result.\<close>

definition result_dict :: "core_result \<Rightarrow> (string \<times> pyval) list" where
  "result_dict r =
     (case r of (plan, inv_v, setups, cost) \<Rightarrow>
        [(''production_plan'', PList (map PFloat plan)),
         (''inventory'', PList (map PFloat inv_v)),
         (''setup'', PList (map PInt setups)),
         (''total_cost'', PFloat cost)])"

text \<open>
  A solver is deterministic when its answer to a model does not depend on the state of its
  environment.
\<close>

definition deterministic :: "'e solver \<Rightarrow> bool" where
  "deterministic solver = (\<forall>e e' m. fst (solver e m) = fst (solver e' m))"

text \<open>A solver that reports status 3 (\<^verbatim>\<open>INFEASIBLE\<close>) on every model.\<close>

definition infeasible_solver :: "unit solver" where
  "infeasible_solver e m = (\<lparr>Status = 3, X = (\<lambda>v. 0), ObjVal = 0\<rparr>, e)"

text \<open>A solver that reports status 2 (\<^verbatim>\<open>OPTIMAL\<close>), all values zero and objective zero.\<close>

definition zero_solver :: "unit solver" where
  "zero_solver e m = (\<lparr>Status = 2, X = (\<lambda>v. 0), ObjVal = 0\<rparr>, e)"

subsection \<open>Answers within the solver's integrality tolerance\<close>

text \<open>
  A solver works with tolerances: the value it reports for a binary variable is near 0 or
  near 1, which is why line 75 rounds it. In the relaxed contract below every constraint and
  every bound holds as in \<open>feasible\<close>, and the value of a binary variable lies between 0 and 1,
  at most \<open>\<delta>\<close> away from one of them. With \<open>\<delta> = 0\<close> this is \<open>feasible\<close>.
\<close>

definition near_binary :: "real \<Rightarrow> real \<Rightarrow> bool" where
  "near_binary \<delta> v = (0 \<le> v \<and> v \<le> 1 \<and> (v \<le> \<delta> \<or> 1 - \<delta> \<le> v))"

definition in_domain_tol :: "real \<Rightarrow> (var \<Rightarrow> real) \<Rightarrow> var_decl \<Rightarrow> bool" where
  "in_domain_tol \<delta> x d =
     (lb d \<le> x (dvar d) \<and> (vtype d = BINARY \<longrightarrow> near_binary \<delta> (x (dvar d))))"

definition feasible_tol :: "real \<Rightarrow> gmodel \<Rightarrow> (var \<Rightarrow> real) \<Rightarrow> bool" where
  "feasible_tol \<delta> m x =
     (list_all (satisfies x) (constrs m) \<and> list_all (in_domain_tol \<delta> x) (vars m))"

text \<open>
  Two runs with such answers, both on non-negative demand. In the first the demand is
  1 and 999999 without initial inventory, with setup cost 1000, unit cost 50 and holding cost
  2; the answer serves the first period under a setup value of 0.000001 and the second under
  0.999999. In the second the demand is 1000001 against an initial inventory of 999999, with
  setup cost 1000000000; the answer produces the two missing units under a setup value of
  0.000001. Each answer satisfies every constraint and bound of its model, its objective
  value is the value of the model's objective, and no answer within the tolerance has a
  smaller one.
\<close>

definition tol_X :: "var \<Rightarrow> real" where
  "tol_X v =
     (case v of Var n t \<Rightarrow>
        if n = ''prod'' then series [1, 999999] t
        else if n = ''inv'' then series [0, 0] t
        else if n = ''setup'' then series [1 / 1000000, 999999 / 1000000] t
        else 0)"

definition tol_solver :: "unit solver" where
  "tol_solver e m = (\<lparr>Status = 2, X = tol_X, ObjVal = 50001000\<rparr>, e)"

definition trickle_X :: "var \<Rightarrow> real" where
  "trickle_X v =
     (case v of Var n t \<Rightarrow>
        if n = ''prod'' then series [2] t
        else if n = ''inv'' then series [0] t
        else if n = ''setup'' then series [1 / 1000000] t
        else 0)"

definition trickle_solver :: "unit solver" where
  "trickle_solver e m = (\<lparr>Status = 2, X = trickle_X, ObjVal = 1100\<rparr>, e)"

subsection \<open>Two runs of the command-line entry\<close>

text \<open>
  The inputs of the module docstrings, the first with an initial inventory of 20 added, with
  stand-ins for the two functions of the \<^verbatim>\<open>json\<close> module that know these two texts only,
  and a solver that answers the first with its optimal plan.
\<close>

definition stock_X :: "var \<Rightarrow> real" where
  "stock_X v =
     (case v of Var n t \<Rightarrow>
        if n = ''prod'' then series [440, 0, 0, 0] t
        else if n = ''inv'' then series [360, 210, 130, 0] t
        else if n = ''setup'' then series [1, 0, 0, 0] t
        else 0)"

definition stock_solver :: "unit solver" where
  "stock_solver e m = (\<lparr>Status = 2, X = stock_X, ObjVal = 24400\<rparr>, e)"

definition demo_stdin :: string where
  "demo_stdin = ''{\"demand\":[100,150,80,130],\"setup_cost\":1000,\"unit_cost\":50,\"holding_cost\":2,\"initial_inventory\":20}''"

definition cap_demo_stdin :: string where
  "cap_demo_stdin = ''{\"demand\":[100,150,80,130],\"capacity\":[300,300,300,300],\"setup_cost\":1000,\"unit_cost\":50,\"holding_cost\":2}''"

definition demo_load :: "string \<Rightarrow> error + pyval" where
  "demo_load text =
     (if text = demo_stdin
      then Inr (PDict [(''demand'', PList [PInt 100, PInt 150, PInt 80, PInt 130]),
                       (''setup_cost'', PInt 1000), (''unit_cost'', PInt 50),
                       (''holding_cost'', PInt 2), (''initial_inventory'', PInt 20)])
      else if text = cap_demo_stdin
      then Inr (PDict [(''demand'', PList [PInt 100, PInt 150, PInt 80, PInt 130]),
                       (''capacity'', PList [PInt 300, PInt 300, PInt 300, PInt 300]),
                       (''setup_cost'', PInt 1000), (''unit_cost'', PInt 50),
                       (''holding_cost'', PInt 2)])
      else Inl (JSONDecodeError ''unknown input''))"

definition demo_dump :: "pyval \<Rightarrow> nat \<Rightarrow> string" where
  "demo_dump v n = ''<json indent='' @ str_nat n @ ''>''"

section \<open>Properties\<close>

subsection \<open>The loop builds the formulation\<close>

lemma period_constrs_at:
  "t < T \<Longrightarrow>
   period_constrs d i0 M (map (Var ''prod'') [0..<T]) (map (Var ''inv'') [0..<T])
       (map (Var ''setup'') [0..<T]) m t
   = m\<lparr>constrs := constrs m @ [bal_constr d i0 t, link_constr M t]\<rparr>"
  by (simp add: period_constrs_def addConstr_def bal_constr_def link_constr_def)

lemma foldl_period_constrs:
  "n \<le> T \<Longrightarrow>
   foldl (period_constrs d i0 M (map (Var ''prod'') [0..<T]) (map (Var ''inv'') [0..<T])
            (map (Var ''setup'') [0..<T])) m [0..<n]
   = m\<lparr>constrs := constrs m @ concat (map (\<lambda>t. [bal_constr d i0 t, link_constr M t]) [0..<n])\<rparr>"
proof (induction n)
  case 0
  then show ?case by simp
next
  case (Suc n)
  then show ?case by (simp add: period_constrs_at)
qed

lemma cap_period_constrs_at:
  "t < T \<Longrightarrow>
   cap_period_constrs d c i0 M (map (Var ''prod'') [0..<T]) (map (Var ''inv'') [0..<T])
       (map (Var ''setup'') [0..<T]) m t
   = m\<lparr>constrs := constrs m @ [bal_constr d i0 t, cap_constr c t, link_constr M t]\<rparr>"
  by (simp add: cap_period_constrs_def addConstr_def bal_constr_def link_constr_def cap_constr_def)

lemma foldl_cap_period_constrs:
  "n \<le> T \<Longrightarrow>
   foldl (cap_period_constrs d c i0 M (map (Var ''prod'') [0..<T]) (map (Var ''inv'') [0..<T])
            (map (Var ''setup'') [0..<T])) m [0..<n]
   = m\<lparr>constrs := constrs m @
         concat (map (\<lambda>t. [bal_constr d i0 t, cap_constr c t, link_constr M t]) [0..<n])\<rparr>"
proof (induction n)
  case 0
  then show ?case by simp
next
  case (Suc n)
  then show ?case by (simp add: cap_period_constrs_at)
qed

lemma build_lot_sizing_eq:
  "build_lot_sizing d sc uc hc i0 m0 =
     (map (Var ''prod'') [0..<length d], map (Var ''inv'') [0..<length d],
      map (Var ''setup'') [0..<length d],
      m0\<lparr>OutputFlag := 0,
         vars := vars m0 @ var_decls (length d),
         constrs := constrs m0 @
            concat (map (\<lambda>t. [bal_constr d i0 t, link_constr (py_sum d + i0) t]) [0..<length d]),
         objective := objective_expr (length d) sc uc hc,
         ModelSense := GRB_MINIMIZE\<rparr>)"
  by (simp add: Let_def build_lot_sizing_def addVars_def setObjective_def foldl_period_constrs
      var_decls_def objective_expr_def)

lemma build_cap_lot_sizing_eq:
  "py_max c = Inr M \<Longrightarrow>
   build_cap_lot_sizing d c sc uc hc i0 m0 =
     Inr (map (Var ''prod'') [0..<length d], map (Var ''inv'') [0..<length d],
      map (Var ''setup'') [0..<length d],
      m0\<lparr>OutputFlag := 0,
         vars := vars m0 @ var_decls (length d),
         constrs := constrs m0 @
            concat (map (\<lambda>t. [bal_constr d i0 t, cap_constr c t, link_constr M t]) [0..<length d]),
         objective := objective_expr (length d) sc uc hc,
         ModelSense := GRB_MINIMIZE\<rparr>)"
  by (simp add: Let_def build_cap_lot_sizing_def addVars_def setObjective_def foldl_cap_period_constrs
      var_decls_def objective_expr_def)

lemma build_cap_lot_sizing_err:
  "py_max c = Inl e \<Longrightarrow> build_cap_lot_sizing d c sc uc hc i0 m0 = Inl e"
  by (simp add: Let_def build_cap_lot_sizing_def addVars_def)

lemma unpack_via_tupledicts:
  "(map (\<lambda>t. X out (map (Var ''prod'') [0..<T] ! t)) [0..<T],
    map (\<lambda>t. X out (map (Var ''inv'') [0..<T] ! t)) [0..<T],
    map (\<lambda>t. py_round (X out (map (Var ''setup'') [0..<T] ! t))) [0..<T],
    ObjVal out) = unpack T out"
  by (simp add: unpack_def)

lemma solve_and_unpack_eq:
  "solve_and_unpack solver T (map (Var ''prod'') [0..<T]) (map (Var ''inv'') [0..<T])
       (map (Var ''setup'') [0..<T]) m w =
     (if Status (answer solver w m) \<noteq> GRB_OPTIMAL
      then Inl (status_error (Status (answer solver w m)))
      else Inr (unpack T (answer solver w m)),
      w\<lparr>trace := trace w @ [Optimize m], env := snd (solver (env w) m)\<rparr>)"
  by (simp add: solve_and_unpack_def optimize_def answer_def status_error_def
      unpack_via_tupledicts split: prod.splits)

lemma solve_core_eq:
  "solve_core solver d sc uc hc i0 w =
     (if Status (answer solver w (lot_sizing_model d sc uc hc i0)) \<noteq> GRB_OPTIMAL
      then Inl (status_error (Status (answer solver w (lot_sizing_model d sc uc hc i0))))
      else Inr (unpack (length d) (answer solver w (lot_sizing_model d sc uc hc i0))),
      after_solve solver w (lot_sizing_model d sc uc hc i0))"
  by (simp add: solve_core_def new_model_def lot_sizing_model_def build_lot_sizing_eq
      solve_and_unpack_eq answer_def after_solve_def gp_Model_def)

lemma lot_sizing_model_eq:
  "lot_sizing_model d sc uc hc i0 =
     \<lparr>ModelName = ''lot_sizing'', OutputFlag = 0, vars = var_decls (length d),
      constrs = concat (map (\<lambda>t. [bal_constr d i0 t, link_constr (py_sum d + i0) t])
                          [0..<length d]),
      objective = objective_expr (length d) sc uc hc, ModelSense = GRB_MINIMIZE\<rparr>"
  by (simp add: lot_sizing_model_def build_lot_sizing_eq gp_Model_def)

lemma cap_lot_sizing_model_eq:
  "py_max c = Inr M \<Longrightarrow>
   cap_lot_sizing_model d c sc uc hc i0 =
     Some \<lparr>ModelName = ''cap_lot_sizing'', OutputFlag = 0, vars = var_decls (length d),
      constrs = concat (map (\<lambda>t. [bal_constr d i0 t, cap_constr c t, link_constr M t])
                          [0..<length d]),
      objective = objective_expr (length d) sc uc hc, ModelSense = GRB_MINIMIZE\<rparr>"
  by (simp add: cap_lot_sizing_model_def build_cap_lot_sizing_eq gp_Model_def)

lemma cap_lot_sizing_model_None:
  "py_max c = Inl e \<Longrightarrow> cap_lot_sizing_model d c sc uc hc i0 = None"
  by (simp add: cap_lot_sizing_model_def build_cap_lot_sizing_err)

lemma solve_cap_core_eq:
  assumes "length d = length c" and "cap_lot_sizing_model d c sc uc hc i0 = Some m"
  shows "solve_cap_core solver d c sc uc hc i0 w =
     (if Status (answer solver w m) \<noteq> GRB_OPTIMAL
      then Inl (status_error (Status (answer solver w m)))
      else Inr (unpack (length d) (answer solver w m)),
      after_solve solver w m)"
proof -
  obtain M where M: "py_max c = Inr M"
    using assms(2) by (cases "py_max c") (simp_all add: cap_lot_sizing_model_None)
  from assms(2) have m: "m = \<lparr>ModelName = ''cap_lot_sizing'', OutputFlag = 0, vars = var_decls (length d),
      constrs = concat (map (\<lambda>t. [bal_constr d i0 t, cap_constr c t, link_constr M t])
                          [0..<length d]),
      objective = objective_expr (length d) sc uc hc, ModelSense = GRB_MINIMIZE\<rparr>"
    by (simp add: cap_lot_sizing_model_eq [OF M])
  show ?thesis
    by (simp add: solve_cap_core_def assms(1) new_model_def build_cap_lot_sizing_eq [OF M]
        solve_and_unpack_eq m answer_def after_solve_def gp_Model_def)
qed

subsection \<open>Feasibility in arithmetic form\<close>

lemma satisfies_bal:
  "satisfies x (bal_constr d i0 t) =
     ((if t = 0 then i0 else x (Var ''inv'' (t - 1))) + x (Var ''prod'' t) - d ! t
        = x (Var ''inv'' t))"
  by (simp add: satisfies_def bal_constr_def)

lemma satisfies_link:
  "satisfies x (link_constr M t) = (x (Var ''prod'' t) \<le> M * x (Var ''setup'' t))"
  by (simp add: satisfies_def link_constr_def)


lemma list_all_map_upt: "list_all P (map f [0..<n]) = (\<forall>t<n. P (f t))"
  by (auto simp add: list_all_iff)

lemma in_domain_continuous:
  "list_all (in_domain x) (map (\<lambda>i. \<lparr>dvar = Var n i, lb = 0, vtype = CONTINUOUS\<rparr>) [0..<T])
     = (\<forall>t<T. 0 \<le> x (Var n t))"
  by (simp add: list_all_map_upt in_domain_def)

lemma in_domain_binary:
  "list_all (in_domain x) (map (\<lambda>i. \<lparr>dvar = Var n i, lb = 0, vtype = BINARY\<rparr>) [0..<T])
     = (\<forall>t<T. x (Var n t) = 0 \<or> x (Var n t) = 1)"
proof -
  have "(0 \<le> r \<and> (r = 0 \<or> r = 1)) = (r = 0 \<or> r = 1)" for r :: real
    by auto
  then show ?thesis
    by (simp add: list_all_map_upt in_domain_def)
qed

lemma in_domain_var_decls:
  "list_all (in_domain x) (var_decls T) =
     (\<forall>t<T. 0 \<le> x (Var ''prod'' t) \<and> 0 \<le> x (Var ''inv'' t)
        \<and> (x (Var ''setup'' t) = 0 \<or> x (Var ''setup'' t) = 1))"
  unfolding var_decls_def list_all_append in_domain_continuous in_domain_binary
  by blast

lemma list_all_concat_upt:
  "list_all P (concat (map f [0..<n])) = (\<forall>t<n. list_all P (f t))"
  by (induction n) (auto simp add: less_Suc_eq)

lemma satisfies_lot_sizing_constrs:
  "list_all (satisfies x) (concat (map (\<lambda>t. [bal_constr d i0 t, link_constr M t]) [0..<n])) =
     (\<forall>t<n. (if t = 0 then i0 else x (Var ''inv'' (t - 1))) + x (Var ''prod'' t) - d ! t
                = x (Var ''inv'' t)
              \<and> x (Var ''prod'' t) \<le> M * x (Var ''setup'' t))"
  by (simp add: list_all_concat_upt satisfies_bal satisfies_link)


lemma feasible_lot_sizing:
  "feasible (lot_sizing_model d sc uc hc i0) x =
     (\<forall>t<length d.
        (if t = 0 then i0 else x (Var ''inv'' (t - 1))) + x (Var ''prod'' t) - d ! t
          = x (Var ''inv'' t)
        \<and> x (Var ''prod'' t) \<le> (py_sum d + i0) * x (Var ''setup'' t)
        \<and> 0 \<le> x (Var ''prod'' t) \<and> 0 \<le> x (Var ''inv'' t)
        \<and> (x (Var ''setup'' t) = 0 \<or> x (Var ''setup'' t) = 1))"
  unfolding feasible_def lot_sizing_model_eq gmodel.select_convs
    satisfies_lot_sizing_constrs in_domain_var_decls
  by blast


subsection \<open>What a call returns\<close>


lemma unpack_length:
  assumes "unpack T out = (plan, invs, setups, cost)"
  shows "length plan = T" and "length invs = T" and "length setups = T" and "cost = ObjVal out"
  using assms by (auto simp add: unpack_def)

lemma solve_core_Inr:
  assumes "solve_core solver d sc uc hc i0 w = (Inr r, w')"
  shows "r = unpack (length d) (answer solver w (lot_sizing_model d sc uc hc i0))"
    and "Status (answer solver w (lot_sizing_model d sc uc hc i0)) = GRB_OPTIMAL"
    and "w' = after_solve solver w (lot_sizing_model d sc uc hc i0)"
  using assms by (auto simp add: solve_core_eq split: if_splits)

lemma solve_cap_core_mismatch:
  "length d \<noteq> length c \<Longrightarrow> solve_cap_core solver d c sc uc hc i0 w = (Inl length_mismatch, w)"
  by (simp add: solve_cap_core_def)

lemma solve_cap_core_max_error:
  "length d = length c \<Longrightarrow> py_max c = Inl e \<Longrightarrow>
   solve_cap_core solver d c sc uc hc i0 w
     = (Inl e, w\<lparr>trace := trace w @ [NewModel ''cap_lot_sizing'']\<rparr>)"
  by (simp add: solve_cap_core_def new_model_def build_cap_lot_sizing_err)

lemma solve_cap_core_Inr:
  assumes "solve_cap_core solver d c sc uc hc i0 w = (Inr r, w')"
  shows "length d = length c"
    and "\<exists>M m. py_max c = Inr M \<and> cap_lot_sizing_model d c sc uc hc i0 = Some m
           \<and> r = unpack (length d) (answer solver w m)
           \<and> Status (answer solver w m) = GRB_OPTIMAL \<and> w' = after_solve solver w m"
proof -
  show len: "length d = length c"
    using assms by (cases "length d = length c") (simp_all add: solve_cap_core_mismatch)
  show "\<exists>M m. py_max c = Inr M \<and> cap_lot_sizing_model d c sc uc hc i0 = Some m
           \<and> r = unpack (length d) (answer solver w m)
           \<and> Status (answer solver w m) = GRB_OPTIMAL \<and> w' = after_solve solver w m"
  proof (cases "py_max c")
    case (Inl e)
    then show ?thesis using assms len by (simp add: solve_cap_core_max_error)
  next
    case (Inr M)
    then obtain m where m: "cap_lot_sizing_model d c sc uc hc i0 = Some m"
      by (simp add: cap_lot_sizing_model_eq)
    from assms show ?thesis
      using Inr m by (auto simp add: solve_cap_core_eq [OF len m] split: if_splits)
  qed
qed


subsection \<open>The two concrete runs\<close>

lemma demo_run:
  "solve_core demo_solver [100, 150, 80, 130] 1000 50 2 0 w0 =
     (Inr ([460, 0, 0, 0], [360, 210, 130, 0], [1, 0, 0, 0], 25400),
      after_solve demo_solver w0 (lot_sizing_model [100, 150, 80, 130] 1000 50 2 0))"
  by (simp add: solve_core_eq answer_def demo_solver_def GRB_OPTIMAL_def unpack_def
      demo_X_def series_def py_round_def upt_rec)


lemma cap_demo_model:
  "cap_lot_sizing_model [100, 150, 80, 130] [300, 300, 300, 300] 1000 50 2 0 =
     Some \<lparr>ModelName = ''cap_lot_sizing'', OutputFlag = 0, vars = var_decls 4,
      constrs = concat (map (\<lambda>t. [bal_constr [100, 150, 80, 130] 0 t,
                                   cap_constr [300, 300, 300, 300] t, link_constr 300 t])
                          [0..<4]),
      objective = objective_expr 4 1000 50 2, ModelSense = GRB_MINIMIZE\<rparr>"
  by (simp add: cap_lot_sizing_model_eq [of _ 300] py_max_def eval_nat_numeral)

lemma cap_demo_run:
  assumes "cap_lot_sizing_model [100, 150, 80, 130] [300, 300, 300, 300] 1000 50 2 0 = Some m"
  shows "solve_cap_core cap_demo_solver [100, 150, 80, 130] [300, 300, 300, 300] 1000 50 2 0 w0 =
     (Inr ([250, 0, 210, 0], [150, 0, 130, 0], [1, 0, 1, 0], 25560),
      after_solve cap_demo_solver w0 m)"
  by (simp add: solve_cap_core_eq [OF _ assms] answer_def cap_demo_solver_def GRB_OPTIMAL_def
      unpack_def cap_demo_X_def series_def py_round_def upt_rec)


subsection \<open>The balance invariant\<close>



subsection \<open>The tools are the cores with the result reshaped\<close>

lemma solve_lot_sizing_eq:
  "solve_lot_sizing solver d sc uc hc i0 w =
     (map_sum id result_dict (fst (solve_core solver d sc uc hc i0 w)),
      snd (solve_core solver d sc uc hc i0 w))"
  by (simp add: solve_lot_sizing_def result_dict_def split: prod.splits sum.splits)

lemma solve_lot_sizing_basic_eq:
  "solve_lot_sizing_basic solver d sc uc hc i0 w =
     (map_sum id (\<lambda>(plan, invs, setups, cost). (plan, cost))
        (fst (solve_core solver d sc uc hc i0 w)),
      snd (solve_core solver d sc uc hc i0 w))"
  by (simp add: solve_lot_sizing_basic_def split: prod.splits sum.splits)

lemma solve_cap_lot_sizing_eq:
  "solve_cap_lot_sizing solver d c sc uc hc i0 w =
     (map_sum id result_dict (fst (solve_cap_core solver d c sc uc hc i0 w)),
      snd (solve_cap_core solver d c sc uc hc i0 w))"
  by (simp add: solve_cap_lot_sizing_def result_dict_def split: prod.splits sum.splits)

lemma solve_cap_lot_sizing_basic_eq:
  "solve_cap_lot_sizing_basic solver d c sc uc hc i0 w =
     (map_sum id (\<lambda>(plan, invs, setups, cost). (plan, cost))
        (fst (solve_cap_core solver d c sc uc hc i0 w)),
      snd (solve_cap_core solver d c sc uc hc i0 w))"
  by (simp add: solve_cap_lot_sizing_basic_def split: prod.splits sum.splits)

subsection \<open>Validation of the capacity series\<close>

text \<open>
  Claim C4. When the demand and capacity series differ in length, the capacitated core and
  both capacitated tools raise the ValueError of line 43, whatever the solver is, and leave
  the world as it was: no model object has been created and the solver has not been called.
\<close>

theorem length_mismatch_fails_fast:
  "length demand \<noteq> length capacity \<Longrightarrow>
     solve_cap_core solver demand capacity sc uc hc i0 w = (Inl length_mismatch, w)
     \<and> solve_cap_lot_sizing solver demand capacity sc uc hc i0 w = (Inl length_mismatch, w)
     \<and> solve_cap_lot_sizing_basic solver demand capacity sc uc hc i0 w
         = (Inl length_mismatch, w)"
  by (simp add: solve_cap_lot_sizing_eq solve_cap_lot_sizing_basic_eq solve_cap_core_mismatch)

theorem length_mismatch_fails_fast_witness:
  "length [100, 150, 80, 130 :: real] \<noteq> length [300, 300, 300 :: real]
   \<and> solve_cap_core cap_demo_solver [100, 150, 80, 130] [300, 300, 300] 1000 50 2 0 w0
       = (Inl length_mismatch, w0)
   \<and> trace (snd (solve_cap_lot_sizing cap_demo_solver [100, 150, 80, 130] [300, 300, 300]
                    1000 50 2 0 w0)) = []"
  using length_mismatch_fails_fast [of "[100, 150, 80, 130]" "[300, 300, 300]"
      cap_demo_solver 1000 50 2 0 w0]
  by (simp add: w0_def)

subsection \<open>The message of the RuntimeError determines the status code\<close>

lemma digit_inj: "a < 10 \<Longrightarrow> b < 10 \<Longrightarrow> digit a = digit b \<Longrightarrow> a = b"
proof -
  assume a: "a < 10" and b: "b < 10" and e: "digit a = digit b"
  from a have "a = 0 \<or> a = 1 \<or> a = 2 \<or> a = 3 \<or> a = 4 \<or> a = 5 \<or> a = 6 \<or> a = 7 \<or> a = 8 \<or> a = 9"
    by arith
  moreover from b have "b = 0 \<or> b = 1 \<or> b = 2 \<or> b = 3 \<or> b = 4 \<or> b = 5 \<or> b = 6 \<or> b = 7 \<or> b = 8 \<or> b = 9"
    by arith
  ultimately show "a = b"
    using e by (elim disjE) (simp_all add: digit_def)
qed

lemma digit_not_minus: "a < 10 \<Longrightarrow> digit a \<noteq> CHR ''-''"
proof -
  assume a: "a < 10"
  then have "a = 0 \<or> a = 1 \<or> a = 2 \<or> a = 3 \<or> a = 4 \<or> a = 5 \<or> a = 6 \<or> a = 7 \<or> a = 8 \<or> a = 9"
    by arith
  then show ?thesis
    by (elim disjE) (simp_all add: digit_def)
qed

lemma str_nat_small: "n < 10 \<Longrightarrow> str_nat n = [digit n]"
  using str_nat.simps [of n] by simp

lemma str_nat_big: "\<not> n < 10 \<Longrightarrow> str_nat n = str_nat (n div 10) @ [digit (n mod 10)]"
  using str_nat.simps [of n] by simp

lemma str_nat_not_Nil: "str_nat n \<noteq> []"
  using str_nat_small [of n] str_nat_big [of n] by (cases "n < 10") simp_all

lemma length_str_nat_big: "\<not> n < 10 \<Longrightarrow> 2 \<le> length (str_nat n)"
  using str_nat_not_Nil [of "n div 10"] str_nat_big [of n]
  by (cases "str_nat (n div 10)") simp_all

lemma hd_str_nat_not_minus: "hd (str_nat n) \<noteq> CHR ''-''"
proof (induction n rule: str_nat.induct)
  case (1 n)
  show ?case
  proof (cases "n < 10")
    case True
    then show ?thesis by (simp add: str_nat_small digit_not_minus)
  next
    case False
    with "1" show ?thesis
      using str_nat_big [of n] by (simp add: str_nat_not_Nil)
  qed
qed

lemma str_nat_inj: "str_nat a = str_nat b \<Longrightarrow> a = b"
proof (induction a arbitrary: b rule: str_nat.induct)
  case (1 a)
  show ?case
  proof (cases "a < 10")
    case True
    then have la: "length (str_nat a) = 1" by (simp add: str_nat_small)
    have "b < 10"
    proof (rule ccontr)
      assume "\<not> b < 10"
      then have "2 \<le> length (str_nat b)" by (rule length_str_nat_big)
      with la "1.prems" show False by simp
    qed
    with True "1.prems" show ?thesis
      by (simp add: str_nat_small digit_inj)
  next
    case False
    then have la: "2 \<le> length (str_nat a)" by (rule length_str_nat_big)
    have nb: "\<not> b < 10"
    proof
      assume "b < 10"
      then have "length (str_nat b) = 1" by (simp add: str_nat_small)
      with la "1.prems" show False by simp
    qed
    from "1.prems" str_nat_big [OF False] str_nat_big [OF nb]
    have e: "str_nat (a div 10) = str_nat (b div 10)" and d: "digit (a mod 10) = digit (b mod 10)"
      by simp_all
    from "1.IH" [OF False e] have "a div 10 = b div 10" .
    moreover from d have "a mod 10 = b mod 10"
      by (intro digit_inj) simp_all
    ultimately show ?thesis
      by (metis div_mult_mod_eq)
  qed
qed

lemma str_int_inj: "str_int a = str_int b \<Longrightarrow> a = b"
proof -
  assume e: "str_int a = str_int b"
  have neg: "str_int i = CHR ''-'' # str_nat (nat (- i))" if "i < 0" for i
    using that by (simp add: str_int_def)
  have pos: "str_int i = str_nat (nat i)" if "\<not> i < 0" for i
    using that by (simp add: str_int_def)
  have mixed: False if "i < 0" and "\<not> j < 0" and "str_int i = str_int j" for i j
  proof -
    from that have "str_nat (nat j) = CHR ''-'' # str_nat (nat (- i))"
      using neg [of i] pos [of j] by simp
    then have "hd (str_nat (nat j)) = CHR ''-''"
      by simp
    then show False by (simp add: hd_str_nat_not_minus)
  qed
  show "a = b"
  proof (cases "a < 0"; cases "b < 0")
    assume "a < 0" "b < 0"
    with e have "nat (- a) = nat (- b)" by (simp add: neg str_nat_inj)
    with \<open>a < 0\<close> \<open>b < 0\<close> show ?thesis by simp
  next
    assume "a < 0" "\<not> b < 0"
    with e mixed show ?thesis by blast
  next
    assume "\<not> a < 0" "b < 0"
    with e mixed [of b a] show ?thesis by simp
  next
    assume "\<not> a < 0" "\<not> b < 0"
    with e have "nat a = nat b" by (simp add: pos str_nat_inj)
    with \<open>\<not> a < 0\<close> \<open>\<not> b < 0\<close> show ?thesis by simp
  qed
qed

lemma status_error_inj: "status_error s = status_error s' \<Longrightarrow> s = s'"
  by (simp add: status_error_def str_int_inj)

subsection \<open>A status other than optimal\<close>

lemma trace_after_solve:
  "trace (after_solve solver w m) = trace w @ [NewModel (ModelName m), Optimize m]"
  by (simp add: after_solve_def)

lemma ModelName_lot_sizing_model: "ModelName (lot_sizing_model d sc uc hc i0) = ''lot_sizing''"
  by (simp add: lot_sizing_model_eq)

lemma ModelName_cap_lot_sizing_model:
  "cap_lot_sizing_model d c sc uc hc i0 = Some m \<Longrightarrow> ModelName m = ''cap_lot_sizing''"
  by (cases "py_max c") (auto simp add: cap_lot_sizing_model_None cap_lot_sizing_model_eq)

text \<open>
  Claim C5. If the status that the solver reports for the model is not \<^verbatim>\<open>OPTIMAL\<close>, the
  core and both tools of each module return the RuntimeError whose message holds that status
  (and the message determines the status); no result is returned, and the trace shows one
  model creation and one call of the solver, so nothing was retried. If the status is
  \<^verbatim>\<open>OPTIMAL\<close>, each of them returns a result. For the capacitated module this is the
  behaviour once the input has passed line 42 and line 53.
\<close>

theorem non_optimal_status_raises:
  "(Status (answer solver w (lot_sizing_model d sc uc hc i0)) \<noteq> GRB_OPTIMAL \<longrightarrow>
      solve_core solver d sc uc hc i0 w
        = (Inl (status_error (Status (answer solver w (lot_sizing_model d sc uc hc i0)))),
           after_solve solver w (lot_sizing_model d sc uc hc i0))
      \<and> solve_lot_sizing solver d sc uc hc i0 w
        = (Inl (status_error (Status (answer solver w (lot_sizing_model d sc uc hc i0)))),
           after_solve solver w (lot_sizing_model d sc uc hc i0))
      \<and> solve_lot_sizing_basic solver d sc uc hc i0 w
        = (Inl (status_error (Status (answer solver w (lot_sizing_model d sc uc hc i0)))),
           after_solve solver w (lot_sizing_model d sc uc hc i0)))
   \<and> (Status (answer solver w (lot_sizing_model d sc uc hc i0)) = GRB_OPTIMAL \<longrightarrow>
      (\<exists>r. fst (solve_core solver d sc uc hc i0 w) = Inr r)
      \<and> (\<exists>r. fst (solve_lot_sizing solver d sc uc hc i0 w) = Inr r)
      \<and> (\<exists>r. fst (solve_lot_sizing_basic solver d sc uc hc i0 w) = Inr r))
   \<and> trace (after_solve solver w (lot_sizing_model d sc uc hc i0))
        = trace w @ [NewModel ''lot_sizing'', Optimize (lot_sizing_model d sc uc hc i0)]
   \<and> (length d = length c \<and> cap_lot_sizing_model d c sc uc hc i0 = Some m \<longrightarrow>
        (Status (answer solver w m) \<noteq> GRB_OPTIMAL \<longrightarrow>
           solve_cap_core solver d c sc uc hc i0 w
             = (Inl (status_error (Status (answer solver w m))), after_solve solver w m)
           \<and> solve_cap_lot_sizing solver d c sc uc hc i0 w
             = (Inl (status_error (Status (answer solver w m))), after_solve solver w m)
           \<and> solve_cap_lot_sizing_basic solver d c sc uc hc i0 w
             = (Inl (status_error (Status (answer solver w m))), after_solve solver w m))
        \<and> (Status (answer solver w m) = GRB_OPTIMAL \<longrightarrow>
           (\<exists>r. fst (solve_cap_core solver d c sc uc hc i0 w) = Inr r)
           \<and> (\<exists>r. fst (solve_cap_lot_sizing solver d c sc uc hc i0 w) = Inr r)
           \<and> (\<exists>r. fst (solve_cap_lot_sizing_basic solver d c sc uc hc i0 w) = Inr r))
        \<and> trace (after_solve solver w m)
             = trace w @ [NewModel ''cap_lot_sizing'', Optimize m])
   \<and> (\<forall>s s'. status_error s = status_error s' \<longrightarrow> s = s')"
proof (intro conjI impI allI)
  assume "length d = length c \<and> cap_lot_sizing_model d c sc uc hc i0 = Some m"
  then have "ModelName m = ''cap_lot_sizing''"
    using ModelName_cap_lot_sizing_model by blast
  then show "trace (after_solve solver w m) = trace w @ [NewModel ''cap_lot_sizing'', Optimize m]"
    by (simp add: trace_after_solve)
qed (simp_all add: solve_core_eq solve_lot_sizing_eq solve_lot_sizing_basic_eq
    solve_cap_core_eq solve_cap_lot_sizing_eq solve_cap_lot_sizing_basic_eq
    trace_after_solve ModelName_lot_sizing_model status_error_inj unpack_def)

lemma status_error_3: "status_error 3 = RuntimeError ''Gurobi status 3: optimisation failed''"
  by (simp add: status_error_def str_int_def str_nat_small digit_def)

theorem non_optimal_status_raises_witness:
  "fst (solve_lot_sizing infeasible_solver [100, 150, 80, 130] 1000 50 2 0 w0)
     = Inl (RuntimeError ''Gurobi status 3: optimisation failed'')
   \<and> length [100, 150, 80, 130 :: real] = length [0, 0, 0, 0 :: real]
   \<and> (\<exists>m. cap_lot_sizing_model [100, 150, 80, 130] [0, 0, 0, 0] 1000 50 2 0 = Some m
        \<and> solve_cap_core infeasible_solver [100, 150, 80, 130] [0, 0, 0, 0] 1000 50 2 0 w0
            = (Inl (RuntimeError ''Gurobi status 3: optimisation failed''),
               \<lparr>trace = [NewModel ''cap_lot_sizing'', Optimize m], env = ()\<rparr>))
   \<and> (\<exists>r. fst (solve_lot_sizing demo_solver [100, 150, 80, 130] 1000 50 2 0 w0) = Inr r)"
proof -
  obtain m where m: "cap_lot_sizing_model [100, 150, 80, 130] [0, 0, 0, 0] 1000 50 2 0 = Some m"
    by (simp add: cap_lot_sizing_model_eq [of _ 0] py_max_def)
  have s: "Status (answer infeasible_solver w0 m') = 3"
    and o: "Status (answer demo_solver w0 m') = GRB_OPTIMAL" for m'
    by (simp_all add: answer_def infeasible_solver_def demo_solver_def GRB_OPTIMAL_def)
  have a: "after_solve infeasible_solver w0 m
      = \<lparr>trace = [NewModel ''cap_lot_sizing'', Optimize m], env = ()\<rparr>"
    by (simp add: after_solve_def w0_def ModelName_cap_lot_sizing_model [OF m])
  from non_optimal_status_raises [of infeasible_solver w0 "[100, 150, 80, 130]" 1000 50 2 0
      "[0, 0, 0, 0]" m]
    non_optimal_status_raises [of demo_solver w0 "[100, 150, 80, 130]" 1000 50 2 0
      "[0, 0, 0, 0]" m] m
  show ?thesis
    by (simp add: s o a GRB_OPTIMAL_def status_error_3)
qed

subsection \<open>Rounding and the shape of the result\<close>

lemma py_round_cases:
  fixes x :: real
  defines "r \<equiv> x - of_int \<lfloor>x\<rfloor>"
  shows "(py_round x = \<lfloor>x\<rfloor> \<and> r \<le> 1 / 2) \<or> (py_round x = \<lfloor>x\<rfloor> + 1 \<and> 1 / 2 \<le> r)"
  unfolding r_def py_round_def Let_def by auto

lemma py_round_nearest: "\<bar>x - of_int (py_round x)\<bar> \<le> \<bar>x - of_int k\<bar>"
proof -
  define r where "r = x - of_int \<lfloor>x\<rfloor>"
  have r0: "0 \<le> r" unfolding r_def by linarith
  have r1: "r < 1" unfolding r_def by linarith
  note r = r0 r1
  have lo: "r \<le> \<bar>x - of_int k\<bar>" if "k \<le> \<lfloor>x\<rfloor>"
  proof -
    from that have "of_int k \<le> (of_int \<lfloor>x\<rfloor> :: real)" by simp
    then show ?thesis unfolding r_def by linarith
  qed
  have hi: "1 - r \<le> \<bar>x - of_int k\<bar>" if "\<lfloor>x\<rfloor> + 1 \<le> k"
  proof -
    from that have "(of_int (\<lfloor>x\<rfloor> + 1) :: real) \<le> of_int k" by (simp only: of_int_le_iff)
    then show ?thesis unfolding r_def by simp
  qed
  consider "k \<le> \<lfloor>x\<rfloor>" | "\<lfloor>x\<rfloor> + 1 \<le> k" by linarith
  then show ?thesis
  proof cases
    case 1
    from py_round_cases [of x] lo [OF 1] r show ?thesis
      unfolding r_def by auto
  next
    case 2
    from py_round_cases [of x] hi [OF 2] r show ?thesis
      unfolding r_def by auto
  qed
qed

lemma py_round_binary: "y = 0 \<or> y = 1 \<Longrightarrow> of_int (py_round y) = y"
  by (auto simp add: py_round_def)

lemma solve_core_tools:
  assumes "solve_core solver d sc uc hc i0 w = (Inr (plan, invs, setups, cost), w')"
  shows "solve_lot_sizing solver d sc uc hc i0 w
           = (Inr [(''production_plan'', PList (map PFloat plan)),
                   (''inventory'', PList (map PFloat invs)),
                   (''setup'', PList (map PInt setups)),
                   (''total_cost'', PFloat cost)], w')"
    and "solve_lot_sizing_basic solver d sc uc hc i0 w = (Inr (plan, cost), w')"
  using assms by (simp_all add: solve_lot_sizing_def solve_lot_sizing_basic_def)

lemma solve_cap_core_tools:
  assumes "solve_cap_core solver d c sc uc hc i0 w = (Inr (plan, invs, setups, cost), w')"
  shows "solve_cap_lot_sizing solver d c sc uc hc i0 w
           = (Inr [(''production_plan'', PList (map PFloat plan)),
                   (''inventory'', PList (map PFloat invs)),
                   (''setup'', PList (map PInt setups)),
                   (''total_cost'', PFloat cost)], w')"
    and "solve_cap_lot_sizing_basic solver d c sc uc hc i0 w = (Inr (plan, cost), w')"
  using assms by (simp_all add: solve_cap_lot_sizing_def solve_cap_lot_sizing_basic_def)

lemma unpack_shape:
  assumes "unpack T out = (plan, invs, setups, cost)"
  shows "plan = map (\<lambda>t. X out (Var ''prod'' t)) [0..<T]
     \<and> invs = map (\<lambda>t. X out (Var ''inv'' t)) [0..<T]
     \<and> setups = map (\<lambda>t. py_round (X out (Var ''setup'' t))) [0..<T]
     \<and> cost = ObjVal out
     \<and> length plan = T \<and> length invs = T \<and> length setups = T
     \<and> (\<forall>t<T. \<forall>k. \<bar>X out (Var ''setup'' t) - of_int (setups ! t)\<bar>
                    \<le> \<bar>X out (Var ''setup'' t) - of_int k\<bar>)"
  using assms by (auto simp add: unpack_def py_round_nearest)

text \<open>
  Claim C6. On every successful call of either core, with \<open>out\<close> the answer of the solver
  and \<open>T\<close> the length of the demand series: the production plan and the inventory
  trajectory are the solver's values of the variables \<open>prod[t]\<close> and \<open>inv[t]\<close> for
  \<open>t < T\<close>, unchanged; each setup flag is an integer nearest to the solver's value of
  \<open>setup[t]\<close>; the total cost is the solver's \<^verbatim>\<open>ObjVal\<close>; the three series have length
  \<open>T\<close>; and the structured tool returns these four outputs under its four keys, the basic
  tool the plan and the cost.
\<close>

theorem result_adapter:
  "(solve_core solver d sc uc hc i0 w = (Inr (plan, invs, setups, cost), w') \<longrightarrow>
      plan = map (\<lambda>t. X (answer solver w (lot_sizing_model d sc uc hc i0)) (Var ''prod'' t))
               [0..<length d]
      \<and> invs = map (\<lambda>t. X (answer solver w (lot_sizing_model d sc uc hc i0)) (Var ''inv'' t))
               [0..<length d]
      \<and> setups = map (\<lambda>t. py_round (X (answer solver w (lot_sizing_model d sc uc hc i0))
                                        (Var ''setup'' t))) [0..<length d]
      \<and> cost = ObjVal (answer solver w (lot_sizing_model d sc uc hc i0))
      \<and> length plan = length d \<and> length invs = length d \<and> length setups = length d
      \<and> (\<forall>t<length d. \<forall>k.
            \<bar>X (answer solver w (lot_sizing_model d sc uc hc i0)) (Var ''setup'' t)
               - of_int (setups ! t)\<bar>
            \<le> \<bar>X (answer solver w (lot_sizing_model d sc uc hc i0)) (Var ''setup'' t)
                 - of_int k\<bar>)
      \<and> solve_lot_sizing solver d sc uc hc i0 w
           = (Inr [(''production_plan'', PList (map PFloat plan)),
                   (''inventory'', PList (map PFloat invs)),
                   (''setup'', PList (map PInt setups)),
                   (''total_cost'', PFloat cost)], w')
      \<and> solve_lot_sizing_basic solver d sc uc hc i0 w = (Inr (plan, cost), w'))
   \<and> (solve_cap_core solver d c sc uc hc i0 w = (Inr (plan, invs, setups, cost), w')
        \<and> cap_lot_sizing_model d c sc uc hc i0 = Some m \<longrightarrow>
      plan = map (\<lambda>t. X (answer solver w m) (Var ''prod'' t)) [0..<length d]
      \<and> invs = map (\<lambda>t. X (answer solver w m) (Var ''inv'' t)) [0..<length d]
      \<and> setups = map (\<lambda>t. py_round (X (answer solver w m) (Var ''setup'' t))) [0..<length d]
      \<and> cost = ObjVal (answer solver w m)
      \<and> length plan = length d \<and> length invs = length d \<and> length setups = length d
      \<and> (\<forall>t<length d. \<forall>k.
            \<bar>X (answer solver w m) (Var ''setup'' t) - of_int (setups ! t)\<bar>
            \<le> \<bar>X (answer solver w m) (Var ''setup'' t) - of_int k\<bar>)
      \<and> solve_cap_lot_sizing solver d c sc uc hc i0 w
           = (Inr [(''production_plan'', PList (map PFloat plan)),
                   (''inventory'', PList (map PFloat invs)),
                   (''setup'', PList (map PInt setups)),
                   (''total_cost'', PFloat cost)], w')
      \<and> solve_cap_lot_sizing_basic solver d c sc uc hc i0 w = (Inr (plan, cost), w'))"
proof (rule conjI; rule impI)
  assume a: "solve_core solver d sc uc hc i0 w = (Inr (plan, invs, setups, cost), w')"
  have u: "unpack (length d) (answer solver w (lot_sizing_model d sc uc hc i0))
      = (plan, invs, setups, cost)"
    using solve_core_Inr(1) [OF a] by simp
  from unpack_shape [OF u] solve_core_tools [OF a]
  show "plan = map (\<lambda>t. X (answer solver w (lot_sizing_model d sc uc hc i0)) (Var ''prod'' t))
               [0..<length d]
      \<and> invs = map (\<lambda>t. X (answer solver w (lot_sizing_model d sc uc hc i0)) (Var ''inv'' t))
               [0..<length d]
      \<and> setups = map (\<lambda>t. py_round (X (answer solver w (lot_sizing_model d sc uc hc i0))
                                        (Var ''setup'' t))) [0..<length d]
      \<and> cost = ObjVal (answer solver w (lot_sizing_model d sc uc hc i0))
      \<and> length plan = length d \<and> length invs = length d \<and> length setups = length d
      \<and> (\<forall>t<length d. \<forall>k.
            \<bar>X (answer solver w (lot_sizing_model d sc uc hc i0)) (Var ''setup'' t)
               - of_int (setups ! t)\<bar>
            \<le> \<bar>X (answer solver w (lot_sizing_model d sc uc hc i0)) (Var ''setup'' t)
                 - of_int k\<bar>)
      \<and> solve_lot_sizing solver d sc uc hc i0 w
           = (Inr [(''production_plan'', PList (map PFloat plan)),
                   (''inventory'', PList (map PFloat invs)),
                   (''setup'', PList (map PInt setups)),
                   (''total_cost'', PFloat cost)], w')
      \<and> solve_lot_sizing_basic solver d sc uc hc i0 w = (Inr (plan, cost), w')"
    by blast
next
  assume a: "solve_cap_core solver d c sc uc hc i0 w = (Inr (plan, invs, setups, cost), w')
        \<and> cap_lot_sizing_model d c sc uc hc i0 = Some m"
  then have c: "solve_cap_core solver d c sc uc hc i0 w = (Inr (plan, invs, setups, cost), w')"
    and m: "cap_lot_sizing_model d c sc uc hc i0 = Some m"
    by simp_all
  have u: "unpack (length d) (answer solver w m) = (plan, invs, setups, cost)"
    using solve_cap_core_Inr(2) [OF c] m by auto
  from unpack_shape [OF u] solve_cap_core_tools [OF c]
  show "plan = map (\<lambda>t. X (answer solver w m) (Var ''prod'' t)) [0..<length d]
      \<and> invs = map (\<lambda>t. X (answer solver w m) (Var ''inv'' t)) [0..<length d]
      \<and> setups = map (\<lambda>t. py_round (X (answer solver w m) (Var ''setup'' t))) [0..<length d]
      \<and> cost = ObjVal (answer solver w m)
      \<and> length plan = length d \<and> length invs = length d \<and> length setups = length d
      \<and> (\<forall>t<length d. \<forall>k.
            \<bar>X (answer solver w m) (Var ''setup'' t) - of_int (setups ! t)\<bar>
            \<le> \<bar>X (answer solver w m) (Var ''setup'' t) - of_int k\<bar>)
      \<and> solve_cap_lot_sizing solver d c sc uc hc i0 w
           = (Inr [(''production_plan'', PList (map PFloat plan)),
                   (''inventory'', PList (map PFloat invs)),
                   (''setup'', PList (map PInt setups)),
                   (''total_cost'', PFloat cost)], w')
      \<and> solve_cap_lot_sizing_basic solver d c sc uc hc i0 w = (Inr (plan, cost), w')"
    by blast
qed

theorem result_adapter_witness:
  "solve_core demo_solver [100, 150, 80, 130] 1000 50 2 0 w0
     = (Inr ([460, 0, 0, 0], [360, 210, 130, 0], [1, 0, 0, 0], 25400),
        after_solve demo_solver w0 (lot_sizing_model [100, 150, 80, 130] 1000 50 2 0))
   \<and> solve_lot_sizing demo_solver [100, 150, 80, 130] 1000 50 2 0 w0
     = (Inr [(''production_plan'', PList [PFloat 460, PFloat 0, PFloat 0, PFloat 0]),
             (''inventory'', PList [PFloat 360, PFloat 210, PFloat 130, PFloat 0]),
             (''setup'', PList [PInt 1, PInt 0, PInt 0, PInt 0]),
             (''total_cost'', PFloat 25400)],
        after_solve demo_solver w0 (lot_sizing_model [100, 150, 80, 130] 1000 50 2 0))
   \<and> (\<exists>m. cap_lot_sizing_model [100, 150, 80, 130] [300, 300, 300, 300] 1000 50 2 0 = Some m
        \<and> solve_cap_lot_sizing_basic cap_demo_solver [100, 150, 80, 130] [300, 300, 300, 300]
              1000 50 2 0 w0
            = (Inr ([250, 0, 210, 0], 25560), after_solve cap_demo_solver w0 m))"
proof -
  obtain m where m: "cap_lot_sizing_model [100, 150, 80, 130] [300, 300, 300, 300] 1000 50 2 0
      = Some m"
    using cap_demo_model by blast
  from result_adapter [THEN conjunct1, rule_format, OF demo_run]
    result_adapter [THEN conjunct2, rule_format, OF conjI, OF cap_demo_run [OF m] m] m
  show ?thesis
    by (simp add: demo_run)
qed

subsection \<open>The objective\<close>

lemma eval_foldl_Add:
  "eval x (foldl (\<lambda>e v. Add e (V v)) e0 vs) = eval x e0 + sum_list (map x vs)"
  by (induction vs arbitrary: e0) simp_all

lemma eval_quicksum: "eval x (quicksum vs) = sum_list (map x vs)"
  by (simp add: quicksum_def eval_foldl_Add)

lemma eval_objective_expr:
  "eval x (objective_expr T sc uc hc) =
     sc * sum_list (map (\<lambda>t. x (Var ''setup'' t)) [0..<T])
     + uc * sum_list (map (\<lambda>t. x (Var ''prod'' t)) [0..<T])
     + hc * sum_list (map (\<lambda>t. x (Var ''inv'' t)) [0..<T])"
  by (simp add: objective_expr_def eval_quicksum comp_def)

lemma objective_lot_sizing_model:
  "objective (lot_sizing_model d sc uc hc i0) = objective_expr (length d) sc uc hc"
  by (simp add: lot_sizing_model_eq)



subsection \<open>Calls are independent of each other\<close>

lemma deterministic_answer:
  "deterministic solver \<Longrightarrow> answer solver w1 m = answer solver w2 m"
  by (simp add: deterministic_def answer_def)

lemma fst_solve_core_deterministic:
  assumes "deterministic solver"
  shows "fst (solve_core solver d sc uc hc i0 w1) = fst (solve_core solver d sc uc hc i0 w2)"
  by (simp add: solve_core_eq deterministic_answer [OF assms, of w1 _ w2])

lemma fst_solve_cap_core_deterministic:
  assumes "deterministic solver"
  shows "fst (solve_cap_core solver d c sc uc hc i0 w1)
     = fst (solve_cap_core solver d c sc uc hc i0 w2)"
proof (cases "length d = length c")
  case False
  then show ?thesis by (simp add: solve_cap_core_mismatch)
next
  case len: True
  show ?thesis
  proof (cases "py_max c")
    case (Inl e)
    then show ?thesis by (simp add: solve_cap_core_max_error [OF len])
  next
    case (Inr M)
    then obtain m where m: "cap_lot_sizing_model d c sc uc hc i0 = Some m"
      by (simp add: cap_lot_sizing_model_eq)
    show ?thesis
      by (simp add: solve_cap_core_eq [OF len m] deterministic_answer [OF assms, of w1 _ w2])
  qed
qed

text \<open>
  Claim C10. With a deterministic solver, the result of each of the six operations depends on
  the parameters only: two calls with the same parameters return the same result, whatever
  the state of the world before each of them is; in particular when the second call starts
  from the world that the first one left. The operations keep no state of their own: the
  world is only handed to the solver.
\<close>

theorem same_inputs_same_outputs:
  "deterministic solver \<Longrightarrow>
     fst (solve_core solver d sc uc hc i0 w1) = fst (solve_core solver d sc uc hc i0 w2)
     \<and> fst (solve_lot_sizing solver d sc uc hc i0 w1)
         = fst (solve_lot_sizing solver d sc uc hc i0 w2)
     \<and> fst (solve_lot_sizing_basic solver d sc uc hc i0 w1)
         = fst (solve_lot_sizing_basic solver d sc uc hc i0 w2)
     \<and> fst (solve_cap_core solver d c sc uc hc i0 w1)
         = fst (solve_cap_core solver d c sc uc hc i0 w2)
     \<and> fst (solve_cap_lot_sizing solver d c sc uc hc i0 w1)
         = fst (solve_cap_lot_sizing solver d c sc uc hc i0 w2)
     \<and> fst (solve_cap_lot_sizing_basic solver d c sc uc hc i0 w1)
         = fst (solve_cap_lot_sizing_basic solver d c sc uc hc i0 w2)"
  using fst_solve_core_deterministic [of solver d sc uc hc i0 w1 w2]
    fst_solve_cap_core_deterministic [of solver d c sc uc hc i0 w1 w2]
  by (simp add: solve_lot_sizing_eq solve_lot_sizing_basic_eq solve_cap_lot_sizing_eq
      solve_cap_lot_sizing_basic_eq)

lemma deterministic_demo_solver: "deterministic demo_solver"
  by (simp add: deterministic_def demo_solver_def)

theorem same_inputs_same_outputs_witness:
  "deterministic demo_solver
   \<and> fst (solve_lot_sizing demo_solver [100, 150, 80, 130] 1000 50 2 0
            (snd (solve_lot_sizing demo_solver [100, 150, 80, 130] 1000 50 2 0 w0)))
     = fst (solve_lot_sizing demo_solver [100, 150, 80, 130] 1000 50 2 0 w0)
   \<and> fst (solve_lot_sizing demo_solver [100, 150, 80, 130] 1000 50 2 0 w0)
     = Inr [(''production_plan'', PList [PFloat 460, PFloat 0, PFloat 0, PFloat 0]),
            (''inventory'', PList [PFloat 360, PFloat 210, PFloat 130, PFloat 0]),
            (''setup'', PList [PInt 1, PInt 0, PInt 0, PInt 0]),
            (''total_cost'', PFloat 25400)]"
  using same_inputs_same_outputs [OF deterministic_demo_solver,
      of "[100, 150, 80, 130]" 1000 50 2 0
         "snd (solve_lot_sizing demo_solver [100, 150, 80, 130] 1000 50 2 0 w0)" w0]
  by (simp add: deterministic_demo_solver solve_lot_sizing_eq demo_run result_dict_def)

subsection \<open>Empty series\<close>

lemma max_empty_not_length_mismatch:
  "ValueError ''max() arg is an empty sequence'' \<noteq> length_mismatch"
  by (simp add: length_mismatch_def)

lemma lot_sizing_model_Nil:
  "lot_sizing_model [] sc uc hc i0 =
     \<lparr>ModelName = ''lot_sizing'', OutputFlag = 0, vars = [], constrs = [],
      objective = Add (Add (Mul sc (Const 0)) (Mul uc (Const 0))) (Mul hc (Const 0)),
      ModelSense = GRB_MINIMIZE\<rparr>"
  by (simp add: lot_sizing_model_eq var_decls_def objective_expr_def quicksum_def)

text \<open>
  Claim C8. With both series empty the capacitated core and its two tools pass the length
  check, create the model object and then fail on \<^verbatim>\<open>max(capacity)\<close>: the error is the
  ValueError of the built-in, which is neither the length-mismatch ValueError of line 43 nor
  a RuntimeError of line 70, and the trace holds the creation of the model but no call of the
  solver. The uncapacitated core computes the big-M \<open>initial_inventory\<close> and hands the
  solver a model without variables and constraints whose objective is 0; when the solver
  reports \<^verbatim>\<open>OPTIMAL\<close> with the objective's value, the core and the tools return three empty
  series and the cost 0.
\<close>

theorem empty_series:
  "solve_cap_core solver [] [] sc uc hc i0 w
     = (Inl (ValueError ''max() arg is an empty sequence''),
        w\<lparr>trace := trace w @ [NewModel ''cap_lot_sizing'']\<rparr>)
   \<and> solve_cap_lot_sizing solver [] [] sc uc hc i0 w
     = (Inl (ValueError ''max() arg is an empty sequence''),
        w\<lparr>trace := trace w @ [NewModel ''cap_lot_sizing'']\<rparr>)
   \<and> solve_cap_lot_sizing_basic solver [] [] sc uc hc i0 w
     = (Inl (ValueError ''max() arg is an empty sequence''),
        w\<lparr>trace := trace w @ [NewModel ''cap_lot_sizing'']\<rparr>)
   \<and> ValueError ''max() arg is an empty sequence'' \<noteq> length_mismatch
   \<and> ValueError ''max() arg is an empty sequence'' \<noteq> status_error s
   \<and> py_sum [] + i0 = i0
   \<and> vars (lot_sizing_model [] sc uc hc i0) = []
   \<and> constrs (lot_sizing_model [] sc uc hc i0) = []
   \<and> eval x (objective (lot_sizing_model [] sc uc hc i0)) = 0
   \<and> (Status (answer solver w (lot_sizing_model [] sc uc hc i0)) = GRB_OPTIMAL
        \<and> ObjVal (answer solver w (lot_sizing_model [] sc uc hc i0))
            = eval (X (answer solver w (lot_sizing_model [] sc uc hc i0)))
                (objective (lot_sizing_model [] sc uc hc i0))
       \<longrightarrow> solve_core solver [] sc uc hc i0 w
             = (Inr ([], [], [], 0), after_solve solver w (lot_sizing_model [] sc uc hc i0))
         \<and> solve_lot_sizing solver [] sc uc hc i0 w
             = (Inr [(''production_plan'', PList []), (''inventory'', PList []),
                     (''setup'', PList []), (''total_cost'', PFloat 0)],
                after_solve solver w (lot_sizing_model [] sc uc hc i0))
         \<and> solve_lot_sizing_basic solver [] sc uc hc i0 w
             = (Inr ([], 0), after_solve solver w (lot_sizing_model [] sc uc hc i0)))"
proof -
  have c: "solve_cap_core solver [] [] sc uc hc i0 w
     = (Inl (ValueError ''max() arg is an empty sequence''),
        w\<lparr>trace := trace w @ [NewModel ''cap_lot_sizing'']\<rparr>)"
    by (simp add: solve_cap_core_max_error py_max_def)
  have o: "eval x (objective (lot_sizing_model [] sc uc hc i0)) = 0" for x
    by (simp add: lot_sizing_model_Nil)
  have u: "Status (answer solver w (lot_sizing_model [] sc uc hc i0)) = GRB_OPTIMAL
        \<and> ObjVal (answer solver w (lot_sizing_model [] sc uc hc i0))
            = eval (X (answer solver w (lot_sizing_model [] sc uc hc i0)))
                (objective (lot_sizing_model [] sc uc hc i0))
       \<Longrightarrow> solve_core solver [] sc uc hc i0 w
             = (Inr ([], [], [], 0), after_solve solver w (lot_sizing_model [] sc uc hc i0))"
    by (simp add: solve_core_eq unpack_def o)
  show ?thesis
    using c u
    by (simp add: solve_cap_lot_sizing_eq solve_cap_lot_sizing_basic_eq solve_lot_sizing_eq
        solve_lot_sizing_basic_eq result_dict_def max_empty_not_length_mismatch
        status_error_def py_sum_def o) (simp add: lot_sizing_model_Nil)
qed

theorem empty_series_witness:
  "Status (answer zero_solver w0 (lot_sizing_model [] 1000 50 2 7)) = GRB_OPTIMAL
   \<and> ObjVal (answer zero_solver w0 (lot_sizing_model [] 1000 50 2 7))
       = eval (X (answer zero_solver w0 (lot_sizing_model [] 1000 50 2 7)))
           (objective (lot_sizing_model [] 1000 50 2 7))
   \<and> fst (solve_lot_sizing zero_solver [] 1000 50 2 7 w0)
       = Inr [(''production_plan'', PList []), (''inventory'', PList []),
              (''setup'', PList []), (''total_cost'', PFloat 0)]
   \<and> solve_cap_lot_sizing zero_solver [] [] 1000 50 2 7 w0
       = (Inl (ValueError ''max() arg is an empty sequence''),
          \<lparr>trace = [NewModel ''cap_lot_sizing''], env = ()\<rparr>)"
proof -
  have s: "Status (answer zero_solver w0 (lot_sizing_model [] 1000 50 2 7)) = GRB_OPTIMAL"
    by (simp add: answer_def zero_solver_def GRB_OPTIMAL_def)
  have o: "ObjVal (answer zero_solver w0 (lot_sizing_model [] 1000 50 2 7))
       = eval (X (answer zero_solver w0 (lot_sizing_model [] 1000 50 2 7)))
           (objective (lot_sizing_model [] 1000 50 2 7))"
    by (simp add: answer_def zero_solver_def lot_sizing_model_Nil)
  from empty_series [of zero_solver 1000 50 2 7 w0] s o
  show ?thesis
    by (simp add: w0_def)
qed

subsection \<open>The capacitated formulation\<close>






subsection \<open>Near-binary setup values\<close>

lemma near_binary_0: "near_binary 0 v = (v = 0 \<or> v = 1)"
  by (auto simp add: near_binary_def)

lemma feasible_tol_0: "feasible_tol 0 m x = feasible m x"
proof -
  have "in_domain_tol 0 x = in_domain x"
    by (rule ext) (auto simp add: in_domain_tol_def in_domain_def near_binary_0)
  then show ?thesis
    by (simp add: feasible_tol_def feasible_def)
qed

lemma in_domain_tol_continuous:
  "list_all (in_domain_tol \<delta> x)
      (map (\<lambda>i. \<lparr>dvar = Var n i, lb = 0, vtype = CONTINUOUS\<rparr>) [0..<T])
     = (\<forall>t<T. 0 \<le> x (Var n t))"
  by (simp add: list_all_map_upt in_domain_tol_def)

lemma in_domain_tol_binary:
  "list_all (in_domain_tol \<delta> x)
      (map (\<lambda>i. \<lparr>dvar = Var n i, lb = 0, vtype = BINARY\<rparr>) [0..<T])
     = (\<forall>t<T. near_binary \<delta> (x (Var n t)))"
proof -
  have "(0 \<le> r \<and> near_binary \<delta> r) = near_binary \<delta> r" for r
    by (auto simp add: near_binary_def)
  then show ?thesis
    by (simp add: list_all_map_upt in_domain_tol_def)
qed

lemma in_domain_tol_var_decls:
  "list_all (in_domain_tol \<delta> x) (var_decls T) =
     (\<forall>t<T. 0 \<le> x (Var ''prod'' t) \<and> 0 \<le> x (Var ''inv'' t)
        \<and> near_binary \<delta> (x (Var ''setup'' t)))"
  unfolding var_decls_def list_all_append in_domain_tol_continuous in_domain_tol_binary
  by blast

lemma feasible_tol_lot_sizing:
  "feasible_tol \<delta> (lot_sizing_model d sc uc hc i0) x =
     (\<forall>t<length d.
        (if t = 0 then i0 else x (Var ''inv'' (t - 1))) + x (Var ''prod'' t) - d ! t
          = x (Var ''inv'' t)
        \<and> x (Var ''prod'' t) \<le> (py_sum d + i0) * x (Var ''setup'' t)
        \<and> 0 \<le> x (Var ''prod'' t) \<and> 0 \<le> x (Var ''inv'' t)
        \<and> near_binary \<delta> (x (Var ''setup'' t)))"
  unfolding feasible_tol_def lot_sizing_model_eq gmodel.select_convs
    satisfies_lot_sizing_constrs in_domain_tol_var_decls
  by blast





subsection \<open>Two runs within tolerance\<close>



lemma tol_objective:
  "ObjVal (answer tol_solver w0 (lot_sizing_model [1, 999999] 1000 50 2 0))
     = eval (X (answer tol_solver w0 (lot_sizing_model [1, 999999] 1000 50 2 0)))
         (objective (lot_sizing_model [1, 999999] 1000 50 2 0))"
  by (simp add: objective_lot_sizing_model eval_objective_expr answer_def tol_solver_def
      tol_X_def series_def upt_rec)

lemma tol_optimal:
  assumes "feasible_tol \<delta> (lot_sizing_model [1, 999999] 1000 50 2 0) x"
  shows "ObjVal (answer tol_solver w0 (lot_sizing_model [1, 999999] 1000 50 2 0))
     \<le> eval x (objective (lot_sizing_model [1, 999999] 1000 50 2 0))"
proof -
  from assms have
    "x (Var ''prod'' 0) - 1 = x (Var ''inv'' 0)"
    "x (Var ''inv'' 0) + x (Var ''prod'' 1) - 999999 = x (Var ''inv'' 1)"
    "x (Var ''prod'' 0) \<le> 1000000 * x (Var ''setup'' 0)"
    "x (Var ''prod'' 1) \<le> 1000000 * x (Var ''setup'' 1)"
    "0 \<le> x (Var ''inv'' 0)" "0 \<le> x (Var ''inv'' 1)"
    by (simp_all add: feasible_tol_lot_sizing py_sum_def All_less_Suc)
  then show ?thesis
    by (simp add: objective_lot_sizing_model eval_objective_expr answer_def tol_solver_def
        upt_rec)
qed








lemma trickle_optimal:
  assumes "feasible_tol \<delta> (lot_sizing_model [1000001] 1000000000 50 2 999999) x"
  shows "ObjVal (answer trickle_solver w0 (lot_sizing_model [1000001] 1000000000 50 2 999999))
     \<le> eval x (objective (lot_sizing_model [1000001] 1000000000 50 2 999999))"
proof -
  from assms have
    "999999 + x (Var ''prod'' 0) - 1000001 = x (Var ''inv'' 0)"
    "x (Var ''prod'' 0) \<le> 2000000 * x (Var ''setup'' 0)"
    "0 \<le> x (Var ''inv'' 0)"
    by (simp_all add: feasible_tol_lot_sizing py_sum_def)
  then show ?thesis
    by (simp add: objective_lot_sizing_model eval_objective_expr answer_def trickle_solver_def
        upt_rec)
qed

subsection \<open>The total cost\<close>








subsection \<open>The linking constraint and the big-M\<close>











subsection \<open>The command-line entry\<close>

lemma json_number_as_float: "json_number v r \<Longrightarrow> as_float v = Some r"
  by (cases v) simp_all

lemma json_number_is_number: "json_number v r \<Longrightarrow> is_number v"
  by (cases v) simp_all

lemma json_numbers_as_floats: "list_all2 json_number vs rs \<Longrightarrow> as_floats vs = Some rs"
  by (induction rule: list_all2_induct) (simp_all add: json_number_as_float)

lemma json_numbers_are_numbers: "list_all2 json_number vs rs \<Longrightarrow> list_all is_number vs"
  by (induction rule: list_all2_induct) (simp_all add: json_number_is_number)

lemma solve_lot_sizing_untyped_numbers:
  assumes "list_all2 json_number ds demand" and "json_number v1 sc" and "json_number v2 uc"
    and "json_number v3 hc" and "json_number v4 i0"
  shows "solve_lot_sizing_untyped solver (PList ds) v1 v2 v3 v4 w
     = Result (solve_lot_sizing solver demand sc uc hc i0 w)"
  using assms
  by (simp add: solve_lot_sizing_untyped_def json_numbers_as_floats json_numbers_are_numbers
      json_number_as_float json_number_is_number)

lemma solve_cap_lot_sizing_empty:
  "solve_cap_lot_sizing solver [] [] sc uc hc i0 w
     = (Inl (ValueError ''max() arg is an empty sequence''),
        snd (new_model ''cap_lot_sizing'' w))"
  by (simp add: solve_cap_lot_sizing_def solve_cap_core_max_error [of _ _ "ValueError ''max() arg is an empty sequence''"]
      py_max_def new_model_def)

lemma solve_cap_lot_sizing_mismatch:
  "length d \<noteq> length c \<Longrightarrow>
   solve_cap_lot_sizing solver d c sc uc hc i0 w = (Inl length_mismatch, w)"
  by (simp add: solve_cap_lot_sizing_def solve_cap_core_mismatch)

lemma solve_cap_lot_sizing_untyped_numbers:
  assumes d: "list_all2 json_number ds demand" and c: "list_all2 json_number cs capacity"
    and s: "json_number v1 sc" "json_number v2 uc" "json_number v3 hc" "json_number v4 i0"
  shows "solve_cap_lot_sizing_untyped solver (PList ds) (PList cs) v1 v2 v3 v4 w
     = Result (solve_cap_lot_sizing solver demand capacity sc uc hc i0 w)"
proof -
  from d c have l: "length ds = length demand" "length cs = length capacity"
    by (simp_all add: list_all2_lengthD)
  show ?thesis
  proof (cases "length ds = length cs")
    case False
    with l show ?thesis
      by (simp add: solve_cap_lot_sizing_untyped_def solve_cap_lot_sizing_mismatch)
  next
    case True
    show ?thesis
    proof (cases "cs = []")
      case True
      with \<open>length ds = length cs\<close> l have "demand = []" "capacity = []" "ds = []"
        by simp_all
      with True show ?thesis
        by (simp add: solve_cap_lot_sizing_untyped_def solve_cap_lot_sizing_empty)
    next
      case False
      with \<open>length ds = length cs\<close> d c s show ?thesis
        by (simp add: solve_cap_lot_sizing_untyped_def json_numbers_as_floats
            json_number_as_float)
    qed
  qed
qed

lemma call_lot_sizing_numbers:
  assumes k: "distinct (map fst kv)"
      "set (map fst kv) \<subseteq> {''demand'', ''setup_cost'', ''unit_cost'', ''holding_cost'',
                               ''initial_inventory''}"
    and d: "map_of kv ''demand'' = Some (PList ds)" "list_all2 json_number ds demand"
    and s: "map_of kv ''setup_cost'' = Some v1" "json_number v1 sc"
      "map_of kv ''unit_cost'' = Some v2" "json_number v2 uc"
      "map_of kv ''holding_cost'' = Some v3" "json_number v3 hc"
    and i: "map_of kv ''initial_inventory'' = None \<and> i0 = 0
      \<or> (\<exists>v. map_of kv ''initial_inventory'' = Some v \<and> json_number v i0)"
  shows "call_lot_sizing solver (PDict kv) w
     = Result (solve_lot_sizing solver demand sc uc hc i0 w)"
proof -
  from k(2) have w: "\<not> list_ex (\<lambda>k. k \<in> set wrapper_keywords) (map fst kv)"
    by (auto simp add: list_ex_iff wrapper_keywords_def)
  from k(2) have u: "\<not> list_ex (\<lambda>k. k \<notin> set [''demand'', ''setup_cost'', ''unit_cost'',
      ''holding_cost'', ''initial_inventory'']) (map fst kv)"
    by (auto simp add: list_ex_iff)
  obtain v4 where v4: "(case map_of kv ''initial_inventory'' of None \<Rightarrow> PFloat 0 | Some v \<Rightarrow> v)
      = v4" and n: "json_number v4 i0"
    using i by auto
  show ?thesis
    unfolding call_lot_sizing_def using w u
    by (simp add: k(1) d(1) s(1,3,5) v4
        solve_lot_sizing_untyped_numbers [OF d(2) s(2) s(4) s(6) n])
qed

lemma call_cap_lot_sizing_numbers:
  assumes k: "distinct (map fst kv)"
      "set (map fst kv) \<subseteq> {''demand'', ''capacity'', ''setup_cost'', ''unit_cost'',
                               ''holding_cost'', ''initial_inventory''}"
    and d: "map_of kv ''demand'' = Some (PList ds)" "list_all2 json_number ds demand"
    and c: "map_of kv ''capacity'' = Some (PList cs)" "list_all2 json_number cs capacity"
    and s: "map_of kv ''setup_cost'' = Some v1" "json_number v1 sc"
      "map_of kv ''unit_cost'' = Some v2" "json_number v2 uc"
      "map_of kv ''holding_cost'' = Some v3" "json_number v3 hc"
    and i: "map_of kv ''initial_inventory'' = None \<and> i0 = 0
      \<or> (\<exists>v. map_of kv ''initial_inventory'' = Some v \<and> json_number v i0)"
  shows "call_cap_lot_sizing solver (PDict kv) w
     = Result (solve_cap_lot_sizing solver demand capacity sc uc hc i0 w)"
proof -
  from k(2) have w: "\<not> list_ex (\<lambda>k. k \<in> set wrapper_keywords) (map fst kv)"
    by (auto simp add: list_ex_iff wrapper_keywords_def)
  from k(2) have u: "\<not> list_ex (\<lambda>k. k \<notin> set [''demand'', ''capacity'', ''setup_cost'',
      ''unit_cost'', ''holding_cost'', ''initial_inventory'']) (map fst kv)"
    by (auto simp add: list_ex_iff)
  obtain v4 where v4: "(case map_of kv ''initial_inventory'' of None \<Rightarrow> PFloat 0 | Some v \<Rightarrow> v)
      = v4" and n: "json_number v4 i0"
    using i by auto
  show ?thesis
    unfolding call_cap_lot_sizing_def using w u
    by (simp add: k(1) d(1) c(1) s(1,3,5) v4
        solve_cap_lot_sizing_untyped_numbers [OF d(2) c(2) s(2) s(4) s(6) n])
qed

lemma call_lot_sizing_not_dict:
  "\<forall>kv. data \<noteq> PDict kv \<Longrightarrow>
   call_lot_sizing solver data w
     = Result (Inl (TypeError ''argument after ** must be a mapping''), w)"
  by (cases data) (simp_all add: call_lot_sizing_def)

lemma call_cap_lot_sizing_not_dict:
  "\<forall>kv. data \<noteq> PDict kv \<Longrightarrow>
   call_cap_lot_sizing solver data w
     = Result (Inl (TypeError ''argument after ** must be a mapping''), w)"
  by (cases data) (simp_all add: call_cap_lot_sizing_def)

lemma solve_lot_sizing_keys:
  "solve_lot_sizing solver d sc uc hc i0 w = (Inr result, w') \<Longrightarrow>
   map fst result = [''production_plan'', ''inventory'', ''setup'', ''total_cost'']"
  by (auto simp add: solve_lot_sizing_def split: prod.splits sum.splits)

lemma solve_cap_lot_sizing_keys:
  "solve_cap_lot_sizing solver d c sc uc hc i0 w = (Inr result, w') \<Longrightarrow>
   map fst result = [''production_plan'', ''inventory'', ''setup'', ''total_cost'']"
  by (auto simp add: solve_cap_lot_sizing_def split: prod.splits sum.splits)

text \<open>
  The entry on values that the annotations exclude: an empty string or object under
  \<open>demand\<close> is the empty series; an element that is no number fails on line 54, after the
  model object was made; a value without length fails on line 46, before.
\<close>

lemma empty_str_is_empty_series:
  assumes "json_number v1 sc" and "json_number v2 uc" and "json_number v3 hc"
    and "json_number v4 i0"
  shows "solve_lot_sizing_untyped solver (PStr []) v1 v2 v3 v4 w
      = Result (solve_lot_sizing solver [] sc uc hc i0 w)"
    and "solve_lot_sizing_untyped solver (PDict []) v1 v2 v3 v4 w
      = Result (solve_lot_sizing solver [] sc uc hc i0 w)"
  using assms
  by (simp_all add: solve_lot_sizing_untyped_def json_number_as_float json_number_is_number)

lemma not_a_number_fails_late:
  "solve_lot_sizing_untyped solver (PList [PInt 100, PStr ''150'']) v1 v2 v3 v4 w
     = Result (Inl (TypeError ''sum(demand) + initial_inventory''),
               w\<lparr>trace := trace w @ [NewModel ''lot_sizing'']\<rparr>)"
  by (simp add: solve_lot_sizing_untyped_def new_model_def)

lemma no_length_fails_early:
  "solve_lot_sizing_untyped solver (PInt 100) v1 v2 v3 v4 w
     = Result (Inl (TypeError ''len(demand)''), w)"
  by (simp add: solve_lot_sizing_untyped_def)

lemma wrapper_keyword_unmodelled:
  "call_lot_sizing solver (PDict ((''sanitize_inputs_outputs'', v) # kv)) w = Unmodelled"
  by (simp add: call_lot_sizing_def wrapper_keywords_def)

lemma stock_run:
  "solve_core stock_solver [100, 150, 80, 130] 1000 50 2 20 w0 =
     (Inr ([440, 0, 0, 0], [360, 210, 130, 0], [1, 0, 0, 0], 24400),
      after_solve stock_solver w0 (lot_sizing_model [100, 150, 80, 130] 1000 50 2 20))"
  by (simp add: solve_core_eq answer_def stock_solver_def GRB_OPTIMAL_def unpack_def
      stock_X_def series_def py_round_def upt_rec)

lemma stock_feasible:
  "feasible (lot_sizing_model [100, 150, 80, 130] 1000 50 2 20)
     (X (answer stock_solver w0 (lot_sizing_model [100, 150, 80, 130] 1000 50 2 20)))"
  by (simp add: feasible_lot_sizing answer_def stock_solver_def stock_X_def series_def
      py_sum_def All_less_Suc)

lemma stock_objective:
  "ObjVal (answer stock_solver w0 (lot_sizing_model [100, 150, 80, 130] 1000 50 2 20))
     = eval (X (answer stock_solver w0 (lot_sizing_model [100, 150, 80, 130] 1000 50 2 20)))
         (objective (lot_sizing_model [100, 150, 80, 130] 1000 50 2 20))"
  by (simp add: objective_lot_sizing_model eval_objective_expr answer_def stock_solver_def
      stock_X_def series_def upt_rec)

text \<open>
  Claim C9. Run directly, each module hands the whole of standard input to \<^verbatim>\<open>json.load\<close>
  once. When that yields a JSON object whose keys are parameters of the structured tool, with
  a list of numbers under each series parameter and a number under each cost, the structured
  tool is called with the values found under the parameters' names, the initial inventory
  being the value under \<open>initial_inventory\<close> where the object has that key and 0 where it has
  not; when the tool returns, standard output is the text that \<^verbatim>\<open>json.dump\<close> writes for
  the returned dict of four entries with \<^verbatim>\<open>indent=2\<close>, followed by one newline character.
  An error of \<^verbatim>\<open>json.load\<close> or of the tool, and a JSON value that is no object, end the
  process with nothing written.
\<close>

theorem command_line_entry:
  "(json_load stdin = Inr (PDict kv) \<and> distinct (map fst kv)
      \<and> set (map fst kv) \<subseteq> {''demand'', ''setup_cost'', ''unit_cost'', ''holding_cost'',
                                 ''initial_inventory''}
      \<and> map_of kv ''demand'' = Some (PList ds) \<and> list_all2 json_number ds demand
      \<and> map_of kv ''setup_cost'' = Some v1 \<and> json_number v1 sc
      \<and> map_of kv ''unit_cost'' = Some v2 \<and> json_number v2 uc
      \<and> map_of kv ''holding_cost'' = Some v3 \<and> json_number v3 hc
      \<and> (map_of kv ''initial_inventory'' = None \<and> i0 = 0
           \<or> (\<exists>v. map_of kv ''initial_inventory'' = Some v \<and> json_number v i0))
     \<longrightarrow> main_lot_sizing json_load json_dump solver stdin w =
           (case solve_lot_sizing solver demand sc uc hc i0 w of
              (Inl e, w') \<Rightarrow> Result (Inl e, w')
            | (Inr result, w') \<Rightarrow>
                Result (Inr (json_dump (PDict result) 2 @ [CHR 0x0A]), w')))
   \<and> (json_load stdin = Inr (PDict kv) \<and> distinct (map fst kv)
      \<and> set (map fst kv) \<subseteq> {''demand'', ''capacity'', ''setup_cost'', ''unit_cost'',
                                 ''holding_cost'', ''initial_inventory''}
      \<and> map_of kv ''demand'' = Some (PList ds) \<and> list_all2 json_number ds demand
      \<and> map_of kv ''capacity'' = Some (PList cs) \<and> list_all2 json_number cs capacity
      \<and> map_of kv ''setup_cost'' = Some v1 \<and> json_number v1 sc
      \<and> map_of kv ''unit_cost'' = Some v2 \<and> json_number v2 uc
      \<and> map_of kv ''holding_cost'' = Some v3 \<and> json_number v3 hc
      \<and> (map_of kv ''initial_inventory'' = None \<and> i0 = 0
           \<or> (\<exists>v. map_of kv ''initial_inventory'' = Some v \<and> json_number v i0))
     \<longrightarrow> main_cap_lot_sizing json_load json_dump solver stdin w =
           (case solve_cap_lot_sizing solver demand capacity sc uc hc i0 w of
              (Inl e, w') \<Rightarrow> Result (Inl e, w')
            | (Inr result, w') \<Rightarrow>
                Result (Inr (json_dump (PDict result) 2 @ [CHR 0x0A]), w')))
   \<and> (solve_lot_sizing solver demand sc uc hc i0 w = (Inr result, w')
        \<or> solve_cap_lot_sizing solver demand capacity sc uc hc i0 w = (Inr result, w')
     \<longrightarrow> map fst result = [''production_plan'', ''inventory'', ''setup'', ''total_cost''])
   \<and> (json_load stdin = Inl e
     \<longrightarrow> main_lot_sizing json_load json_dump solver stdin w = Result (Inl e, w)
       \<and> main_cap_lot_sizing json_load json_dump solver stdin w = Result (Inl e, w))
   \<and> (json_load stdin = Inr data \<and> (\<forall>kv. data \<noteq> PDict kv)
     \<longrightarrow> main_lot_sizing json_load json_dump solver stdin w
           = Result (Inl (TypeError ''argument after ** must be a mapping''), w)
       \<and> main_cap_lot_sizing json_load json_dump solver stdin w
           = Result (Inl (TypeError ''argument after ** must be a mapping''), w))"
proof (intro conjI impI; (elim conjE)?)
  assume l: "json_load stdin = Inr (PDict kv)" and k: "distinct (map fst kv)"
    "set (map fst kv) \<subseteq> {''demand'', ''setup_cost'', ''unit_cost'', ''holding_cost'',
                             ''initial_inventory''}"
    and d: "map_of kv ''demand'' = Some (PList ds)" "list_all2 json_number ds demand"
    and s: "map_of kv ''setup_cost'' = Some v1" "json_number v1 sc"
      "map_of kv ''unit_cost'' = Some v2" "json_number v2 uc"
      "map_of kv ''holding_cost'' = Some v3" "json_number v3 hc"
    and i: "map_of kv ''initial_inventory'' = None \<and> i0 = 0
      \<or> (\<exists>v. map_of kv ''initial_inventory'' = Some v \<and> json_number v i0)"
  show "main_lot_sizing json_load json_dump solver stdin w =
     (case solve_lot_sizing solver demand sc uc hc i0 w of
        (Inl e, w') \<Rightarrow> Result (Inl e, w')
      | (Inr result, w') \<Rightarrow> Result (Inr (json_dump (PDict result) 2 @ [CHR 0x0A]), w'))"
    using l by (simp add: main_lot_sizing_def call_lot_sizing_numbers [OF k d s i])
next
  assume l: "json_load stdin = Inr (PDict kv)" and k: "distinct (map fst kv)"
    "set (map fst kv) \<subseteq> {''demand'', ''capacity'', ''setup_cost'', ''unit_cost'',
                             ''holding_cost'', ''initial_inventory''}"
    and d: "map_of kv ''demand'' = Some (PList ds)" "list_all2 json_number ds demand"
    and c: "map_of kv ''capacity'' = Some (PList cs)" "list_all2 json_number cs capacity"
    and s: "map_of kv ''setup_cost'' = Some v1" "json_number v1 sc"
      "map_of kv ''unit_cost'' = Some v2" "json_number v2 uc"
      "map_of kv ''holding_cost'' = Some v3" "json_number v3 hc"
    and i: "map_of kv ''initial_inventory'' = None \<and> i0 = 0
      \<or> (\<exists>v. map_of kv ''initial_inventory'' = Some v \<and> json_number v i0)"
  show "main_cap_lot_sizing json_load json_dump solver stdin w =
     (case solve_cap_lot_sizing solver demand capacity sc uc hc i0 w of
        (Inl e, w') \<Rightarrow> Result (Inl e, w')
      | (Inr result, w') \<Rightarrow> Result (Inr (json_dump (PDict result) 2 @ [CHR 0x0A]), w'))"
    using l by (simp add: main_cap_lot_sizing_def call_cap_lot_sizing_numbers [OF k d c s i])
next
  assume "solve_lot_sizing solver demand sc uc hc i0 w = (Inr result, w')
        \<or> solve_cap_lot_sizing solver demand capacity sc uc hc i0 w = (Inr result, w')"
  then show "map fst result = [''production_plan'', ''inventory'', ''setup'', ''total_cost'']"
    using solve_lot_sizing_keys solve_cap_lot_sizing_keys by blast
qed (simp_all add: main_lot_sizing_def main_cap_lot_sizing_def call_lot_sizing_not_dict
    call_cap_lot_sizing_not_dict)

theorem command_line_entry_witness:
  "demo_load demo_stdin
     = Inr (PDict [(''demand'', PList [PInt 100, PInt 150, PInt 80, PInt 130]),
                   (''setup_cost'', PInt 1000), (''unit_cost'', PInt 50),
                   (''holding_cost'', PInt 2), (''initial_inventory'', PInt 20)])
   \<and> solve_lot_sizing stock_solver [100, 150, 80, 130] 1000 50 2 20 w0
     = (Inr [(''production_plan'', PList [PFloat 440, PFloat 0, PFloat 0, PFloat 0]),
             (''inventory'', PList [PFloat 360, PFloat 210, PFloat 130, PFloat 0]),
             (''setup'', PList [PInt 1, PInt 0, PInt 0, PInt 0]),
             (''total_cost'', PFloat 24400)],
        after_solve stock_solver w0 (lot_sizing_model [100, 150, 80, 130] 1000 50 2 20))
   \<and> main_lot_sizing demo_load demo_dump stock_solver demo_stdin w0
     = Result (Inr (''<json indent=2>'' @ [CHR 0x0A]),
               after_solve stock_solver w0 (lot_sizing_model [100, 150, 80, 130] 1000 50 2 20))
   \<and> demo_load cap_demo_stdin
     = Inr (PDict [(''demand'', PList [PInt 100, PInt 150, PInt 80, PInt 130]),
                   (''capacity'', PList [PInt 300, PInt 300, PInt 300, PInt 300]),
                   (''setup_cost'', PInt 1000), (''unit_cost'', PInt 50),
                   (''holding_cost'', PInt 2)])
   \<and> (\<exists>m. cap_lot_sizing_model [100, 150, 80, 130] [300, 300, 300, 300] 1000 50 2 0 = Some m
        \<and> main_cap_lot_sizing demo_load demo_dump cap_demo_solver cap_demo_stdin w0
          = Result (Inr (''<json indent=2>'' @ [CHR 0x0A]), after_solve cap_demo_solver w0 m))"
proof -
  have l: "demo_load demo_stdin
     = Inr (PDict [(''demand'', PList [PInt 100, PInt 150, PInt 80, PInt 130]),
                   (''setup_cost'', PInt 1000), (''unit_cost'', PInt 50),
                   (''holding_cost'', PInt 2), (''initial_inventory'', PInt 20)])"
    by (simp add: demo_load_def)
  have lc: "demo_load cap_demo_stdin
     = Inr (PDict [(''demand'', PList [PInt 100, PInt 150, PInt 80, PInt 130]),
                   (''capacity'', PList [PInt 300, PInt 300, PInt 300, PInt 300]),
                   (''setup_cost'', PInt 1000), (''unit_cost'', PInt 50),
                   (''holding_cost'', PInt 2)])"
    by (simp add: demo_load_def demo_stdin_def cap_demo_stdin_def)
  have s: "solve_lot_sizing stock_solver [100, 150, 80, 130] 1000 50 2 20 w0
     = (Inr [(''production_plan'', PList [PFloat 440, PFloat 0, PFloat 0, PFloat 0]),
             (''inventory'', PList [PFloat 360, PFloat 210, PFloat 130, PFloat 0]),
             (''setup'', PList [PInt 1, PInt 0, PInt 0, PInt 0]),
             (''total_cost'', PFloat 24400)],
        after_solve stock_solver w0 (lot_sizing_model [100, 150, 80, 130] 1000 50 2 20))"
    by (simp add: solve_lot_sizing_eq stock_run result_dict_def)
  obtain m where m: "cap_lot_sizing_model [100, 150, 80, 130] [300, 300, 300, 300] 1000 50 2 0
      = Some m"
    using cap_demo_model by blast
  have sc: "solve_cap_lot_sizing cap_demo_solver [100, 150, 80, 130] [300, 300, 300, 300]
        1000 50 2 0 w0
     = (Inr [(''production_plan'', PList [PFloat 250, PFloat 0, PFloat 210, PFloat 0]),
             (''inventory'', PList [PFloat 150, PFloat 0, PFloat 130, PFloat 0]),
             (''setup'', PList [PInt 1, PInt 0, PInt 1, PInt 0]),
             (''total_cost'', PFloat 25560)],
        after_solve cap_demo_solver w0 m)"
    by (simp add: solve_cap_lot_sizing_eq cap_demo_run [OF m] result_dict_def)
  have d: "demo_dump v 2 = ''<json indent=2>''" for v
    by (simp add: demo_dump_def str_nat_small digit_def)
  note t = command_line_entry [where json_load = demo_load and json_dump = demo_dump
      and w = w0]
  from t [where stdin = demo_stdin and solver = stock_solver
      and kv = "[(''demand'', PList [PInt 100, PInt 150, PInt 80, PInt 130]),
                 (''setup_cost'', PInt 1000), (''unit_cost'', PInt 50),
                 (''holding_cost'', PInt 2), (''initial_inventory'', PInt 20)]"
      and ds = "[PInt 100, PInt 150, PInt 80, PInt 130]" and demand = "[100, 150, 80, 130]"
      and ?v1.0 = "PInt 1000" and sc = 1000 and ?v2.0 = "PInt 50" and uc = 50
      and ?v3.0 = "PInt 2" and hc = 2 and ?i0.0 = 20, THEN conjunct1]
  have a: "main_lot_sizing demo_load demo_dump stock_solver demo_stdin w0
     = Result (Inr (''<json indent=2>'' @ [CHR 0x0A]),
               after_solve stock_solver w0 (lot_sizing_model [100, 150, 80, 130] 1000 50 2 20))"
    by (simp add: l s d)
  from t [where stdin = cap_demo_stdin and solver = cap_demo_solver
      and kv = "[(''demand'', PList [PInt 100, PInt 150, PInt 80, PInt 130]),
                 (''capacity'', PList [PInt 300, PInt 300, PInt 300, PInt 300]),
                 (''setup_cost'', PInt 1000), (''unit_cost'', PInt 50),
                 (''holding_cost'', PInt 2)]"
      and ds = "[PInt 100, PInt 150, PInt 80, PInt 130]" and demand = "[100, 150, 80, 130]"
      and cs = "[PInt 300, PInt 300, PInt 300, PInt 300]" and capacity = "[300, 300, 300, 300]"
      and ?v1.0 = "PInt 1000" and sc = 1000 and ?v2.0 = "PInt 50" and uc = 50
      and ?v3.0 = "PInt 2" and hc = 2 and ?i0.0 = 0, THEN conjunct2, THEN conjunct1]
  have b: "main_cap_lot_sizing demo_load demo_dump cap_demo_solver cap_demo_stdin w0
     = Result (Inr (''<json indent=2>'' @ [CHR 0x0A]), after_solve cap_demo_solver w0 m)"
    by (simp add: lc sc d)
  from l s a lc m b show ?thesis
    by blast
qed

end
